theory Spec2Isabelle
  imports Main "HOL-Library.Sublist" "HOL-Library.Word" "HOL-Library.List_Lexorder" "HOL-Library.Char_ord"
begin

unbundle bit_operations_syntax

section \<open>Go strings and the library functions the generator calls\<close>

text \<open>
  A Go string is a sequence of bytes; \<open>string\<close> (a list of 8-bit characters) models it,
  \<open>length\<close> is Go's \<open>len\<close>, \<open>drop\<close> and \<open>take\<close> are byte slices, \<open>prefix\<close> is
  \<open>strings.HasPrefix\<close>. The generator calls \<open>strings.Split\<close> only with the one-byte
  separators \<open>"-"\<close> and \<open>"="\<close>, so the separator is a character here. Like Go's,
  the result always has at least one field.
\<close>

fun Split :: "string \<Rightarrow> char \<Rightarrow> string list" where
  "Split [] sep = [[]]"
| "Split (c # s) sep =
     (if c = sep then [] # Split s sep
      else (case Split s sep of
              [] \<Rightarrow> [[c]]
            | f # fs \<Rightarrow> (c # f) # fs))"

text \<open>\<open>strings.SplitN(s, sep, 2)\<close>: at most two fields, cut at the first separator.\<close>

definition SplitN2 :: "string \<Rightarrow> char \<Rightarrow> string list" where
  "SplitN2 s sep =
     (if sep \<in> set s then [takeWhile (\<lambda>c. c \<noteq> sep) s, tl (dropWhile (\<lambda>c. c \<noteq> sep) s)]
      else [s])"

text \<open>\<open>strings.Contains\<close>: the second string occurs somewhere in the first.\<close>

fun Contains :: "string \<Rightarrow> string \<Rightarrow> bool" where
  "Contains [] sub = (sub = [])"
| "Contains (c # s) sub = (prefix sub (c # s) \<or> Contains s sub)"

text \<open>
  \<open>strings.Replace(s, old, new, -1)\<close> for a non-empty \<open>old\<close>: every non-overlapping
  occurrence, scanning from the left. The only call passes the constant placeholder;
  an empty \<open>old\<close> (where Go inserts \<open>new\<close> around every rune) does not arise and is
  left as the identity.
\<close>

function Replace :: "string \<Rightarrow> string \<Rightarrow> string \<Rightarrow> string" where
  "Replace [] old new = []"
| "Replace (c # s) old new =
     (if old \<noteq> [] \<and> prefix old (c # s)
      then new @ Replace (drop (length old) (c # s)) old new
      else c # Replace s old new)"
  by pat_completeness auto
termination
  by (relation "measure (\<lambda>(s, old, new). length s)") auto

text \<open>\<open>strings.Join\<close>.\<close>

fun Join :: "string list \<Rightarrow> string \<Rightarrow> string" where
  "Join [] sep = []"
| "Join [x] sep = x"
| "Join (x # y # ys) sep = x @ sep @ Join (y # ys) sep"

text \<open>
  \<open>strings.TrimSpace\<close> removes leading and trailing white space as Unicode defines
  it. On the bytes of a string these are the six ASCII space characters and the UTF-8
  encodings of U+0085, U+00A0, U+1680, U+2000..U+200A, U+2028, U+2029, U+202F, U+205F
  and U+3000. Bytes that do not decode are not white space and stop the trimming.
\<close>

definition whiteSpace :: "string list" where
  "whiteSpace =
     [[CHR 0x09], [CHR 0x0A], [CHR 0x0B], [CHR 0x0C], [CHR 0x0D], [CHR 0x20],
      [CHR 0xC2, CHR 0x85], [CHR 0xC2, CHR 0xA0],
      [CHR 0xE1, CHR 0x9A, CHR 0x80],
      [CHR 0xE2, CHR 0x80, CHR 0x80], [CHR 0xE2, CHR 0x80, CHR 0x81],
      [CHR 0xE2, CHR 0x80, CHR 0x82], [CHR 0xE2, CHR 0x80, CHR 0x83],
      [CHR 0xE2, CHR 0x80, CHR 0x84], [CHR 0xE2, CHR 0x80, CHR 0x85],
      [CHR 0xE2, CHR 0x80, CHR 0x86], [CHR 0xE2, CHR 0x80, CHR 0x87],
      [CHR 0xE2, CHR 0x80, CHR 0x88], [CHR 0xE2, CHR 0x80, CHR 0x89],
      [CHR 0xE2, CHR 0x80, CHR 0x8A],
      [CHR 0xE2, CHR 0x80, CHR 0xA8], [CHR 0xE2, CHR 0x80, CHR 0xA9],
      [CHR 0xE2, CHR 0x80, CHR 0xAF],
      [CHR 0xE2, CHR 0x81, CHR 0x9F],
      [CHR 0xE3, CHR 0x80, CHR 0x80]]"

function trimLeft :: "string list \<Rightarrow> string \<Rightarrow> string" where
  "trimLeft seqs s =
     (case find (\<lambda>p. p \<noteq> [] \<and> prefix p s) seqs of
        None \<Rightarrow> s
      | Some p \<Rightarrow> trimLeft seqs (drop (length p) s))"
  by pat_completeness auto
termination
proof (relation "measure (\<lambda>(seqs, s). length s)")
  show "wf (measure (\<lambda>(seqs, s). length s))"
    by simp
next
  fix seqs :: "string list" and s p :: string
  assume "find (\<lambda>p. p \<noteq> [] \<and> prefix p s) seqs = Some p"
  then have "p \<noteq> []" and "prefix p s"
    by (auto simp: find_Some_iff)
  then have "s \<noteq> []"
    by auto
  with \<open>p \<noteq> []\<close> show "((seqs, drop (length p) s), (seqs, s)) \<in> measure (\<lambda>(seqs, s). length s)"
    by simp
qed

declare trimLeft.simps [simp del]

definition TrimSpace :: "string \<Rightarrow> string" where
  "TrimSpace s = rev (trimLeft (map rev whiteSpace) (rev (trimLeft whiteSpace s)))"

text \<open>
  \<open>strconv.Itoa\<close> and the \<open>%v\<close> verb of \<open>fmt.Sprintf\<close> on an \<open>int\<close>: decimal digits,
  with a minus sign for a negative number.
\<close>

function natToString :: "nat \<Rightarrow> string" where
  "natToString n =
     (if n < 10 then [''0123456789'' ! n]
      else natToString (n div 10) @ [''0123456789'' ! (n mod 10)])"
  by pat_completeness auto
termination
  by (relation "measure id") auto

declare natToString.simps [simp del]

definition Itoa :: "int \<Rightarrow> string" where
  "Itoa i = (if i < 0 then CHR ''-'' # natToString (nat (- i)) else natToString (nat i))"

text \<open>
  \<open>strconv.Atoi\<close> on a platform whose \<open>int\<close> has 64 bits: an optional sign, then one
  or more decimal digits, and the value must fit the type. \<open>None\<close> is the error return
  (a syntax error or a range error; the caller does not tell them apart).
\<close>

definition isDigit :: "char \<Rightarrow> bool" where
  "isDigit c = (c \<in> set ''0123456789'')"

definition digitVal :: "char \<Rightarrow> nat" where
  "digitVal c = of_char c - 48"

definition parseDigits :: "string \<Rightarrow> nat" where
  "parseDigits ds = foldl (\<lambda>n c. n * 10 + digitVal c) 0 ds"

definition Atoi :: "string \<Rightarrow> int option" where
  "Atoi s =
     (case s of
        [] \<Rightarrow> None
      | c # r \<Rightarrow>
          (let neg = (c = CHR ''-'');
               ds = (if c = CHR ''-'' \<or> c = CHR ''+'' then r else s)
           in if ds = [] \<or> \<not> list_all isDigit ds then None
              else if neg then
                (if parseDigits ds > 2 ^ 63 then None else Some (- int (parseDigits ds)))
              else
                (if parseDigits ds \<ge> 2 ^ 63 then None else Some (int (parseDigits ds)))))"

text \<open>Addition on Go's 64-bit \<open>int\<close> wraps around in two's complement.\<close>

definition wrap64 :: "int \<Rightarrow> int" where
  "wrap64 i = (i + 2 ^ 63) mod 2 ^ 64 - 2 ^ 63"

section \<open>The job-name hash\<close>

text \<open>
  \<open>getSHA1Hash\<close> is the lower-case hexadecimal SHA-1 digest of the bytes of its
  argument (\<open>crypto/sha1\<close> and \<open>encoding/hex\<close>), computed here on 32-bit words as
  FIPS 180 gives it.
\<close>

definition sha1Pad :: "32 word list \<Rightarrow> 32 word list" where
  "sha1Pad bs =
     (let l = length bs;
          bits = (of_nat (8 * l) :: 64 word)
      in bs @ [0x80] @ replicate ((119 - l mod 64) mod 64) 0
            @ map (\<lambda>i. ucast (drop_bit (8 * (7 - i)) bits AND 0xFF)) [0..<8])"

function sha1Words :: "32 word list \<Rightarrow> 32 word list" where
  "sha1Words bs =
     (if length bs < 4 then []
      else foldl (\<lambda>acc b. push_bit 8 acc OR b) 0 (take 4 bs) # sha1Words (drop 4 bs))"
  by pat_completeness auto
termination
  by (relation "measure length") auto

declare sha1Words.simps [simp del]

function sha1Blocks :: "32 word list \<Rightarrow> 32 word list list" where
  "sha1Blocks ws =
     (if length ws < 16 then [] else take 16 ws # sha1Blocks (drop 16 ws))"
  by pat_completeness auto
termination
  by (relation "measure length") auto

declare sha1Blocks.simps [simp del]

fun sha1Schedule :: "nat \<Rightarrow> 32 word list \<Rightarrow> 32 word list" where
  "sha1Schedule 0 w = w"
| "sha1Schedule (Suc k) w =
     (let i = length w
      in sha1Schedule k
           (w @ [word_rotl 1 (w ! (i - 3) XOR w ! (i - 8) XOR w ! (i - 14) XOR w ! (i - 16))]))"

type_synonym sha1State = "32 word \<times> 32 word \<times> 32 word \<times> 32 word \<times> 32 word"

definition sha1Round :: "32 word list \<Rightarrow> sha1State \<Rightarrow> nat \<Rightarrow> sha1State" where
  "sha1Round w st t =
     (case st of (a, b, c, d, e) \<Rightarrow>
        (let f = (if t < 20 then (b AND c) OR (NOT b AND d)
                  else if t < 40 then b XOR c XOR d
                  else if t < 60 then (b AND c) OR (b AND d) OR (c AND d)
                  else b XOR c XOR d);
             k = (if t < 20 then 0x5A827999
                  else if t < 40 then 0x6ED9EBA1
                  else if t < 60 then 0x8F1BBCDC
                  else 0xCA62C1D6);
             temp = word_rotl 5 a + f + e + k + w ! t
         in (temp, a, word_rotl 30 b, c, d)))"

definition sha1Block :: "sha1State \<Rightarrow> 32 word list \<Rightarrow> sha1State" where
  "sha1Block h blk =
     (case h of (h0, h1, h2, h3, h4) \<Rightarrow>
        (case foldl (sha1Round (sha1Schedule 64 blk)) h [0..<80] of
           (a, b, c, d, e) \<Rightarrow> (h0 + a, h1 + b, h2 + c, h3 + d, h4 + e)))"

definition hexWord :: "32 word \<Rightarrow> string" where
  "hexWord w = map (\<lambda>i. ''0123456789abcdef'' ! unat (drop_bit (4 * (7 - i)) w AND 0xF)) [0..<8]"

definition getSHA1Hash :: "string \<Rightarrow> string" where
  "getSHA1Hash data =
     (case foldl sha1Block (0x67452301, 0xEFCDAB89, 0x98BADCFE, 0x10325476, 0xC3D2E1F0)
             (sha1Blocks (sha1Words (sha1Pad (map of_char data)))) of
        (h0, h1, h2, h3, h4) \<Rightarrow> concat (map hexWord [h0, h1, h2, h3, h4]))"

text \<open>
  \<open>substitute\<close> replaces the placeholder in every line by the first ten characters of
  the hash of the job name; \<open>getArgs\<close> is its only caller.
\<close>

definition substitute :: "string \<Rightarrow> string list \<Rightarrow> string list" where
  "substitute jobName lines =
     map (\<lambda>line. Replace line ''${job_name_hash}'' (take 10 (getSHA1Hash jobName))) lines"

definition getArgs :: "string \<Rightarrow> string list \<Rightarrow> string list" where
  "getArgs jobName args = substitute jobName args"

section \<open>Overrides\<close>

text \<open>
  \<open>applyJobOverrides\<close>. The inner search runs over \<open>originalEnvsOrArgs\<close>, the copy made on
  entry, and yields the first entry whose trimmed text starts with \<open>name=\<close> or is
  \<open>name\<close>; the empty string stands for "none found", as the zero value of \<open>envOrArg\<close>
  does in the source.
\<close>

fun findEnvOrArg :: "string \<Rightarrow> string list \<Rightarrow> string" where
  "findEnvOrArg name [] = []"
| "findEnvOrArg name (val # vals) =
     (let trimVal = TrimSpace val in
      if prefix (name @ ''='') trimVal \<or> trimVal = name then val
      else findEnvOrArg name vals)"

text \<open>The removal loop: drop the first entry equal to \<open>envOrArg\<close>, then \<open>break\<close>.\<close>

fun removeEntry :: "string \<Rightarrow> string list \<Rightarrow> string list" where
  "removeEntry envOrArg [] = []"
| "removeEntry envOrArg (v # vs) =
     (if v = envOrArg then vs else v # removeEntry envOrArg vs)"

fun overrideLoop :: "string list \<Rightarrow> string list \<Rightarrow> string list \<Rightarrow> string list" where
  "overrideLoop originalEnvsOrArgs envsOrArgs [] = envsOrArgs"
| "overrideLoop originalEnvsOrArgs envsOrArgs (jobEnvOrArg # rest) =
     (let name = hd (Split jobEnvOrArg (CHR ''=''));
          envOrArg = findEnvOrArg name originalEnvsOrArgs;
          envsOrArgs' = (if envOrArg \<noteq> [] then removeEntry envOrArg envsOrArgs else envsOrArgs)
      in overrideLoop originalEnvsOrArgs (envsOrArgs' @ [jobEnvOrArg]) rest)"

definition applyJobOverrides :: "string list \<Rightarrow> string list \<Rightarrow> string list" where
  "applyJobOverrides envsOrArgs jobEnvsOrArgs = overrideLoop envsOrArgs envsOrArgs jobEnvsOrArgs"

section \<open>The configuration document and the generated records\<close>

text \<open>
  The structs of the source, field for field. A Go map with string keys is a partial
  function; reading a key that is absent gives the zero value of the element type, so each
  struct has its zero value here. \<open>Jobs\<close> is the one map the program iterates over: it is
  an association list, and its keys are sorted before use, as \<open>main\<close> does.
\<close>

record ComputeResources =
  CPU :: string
  Memory :: string

record Resources =
  Requests :: ComputeResources
  Limits :: ComputeResources

record Job =
  Scenario :: string
  Interval :: string
  Cron :: string
  SigOwners :: "string list"
  ReleaseBlocking :: bool
  ReleaseInforming :: bool
  Cluster :: string
  TestgridNumFailuresToAlert :: int
  Args :: "string list"
  Resources :: Resources

record Common =
  Args :: "string list"
  TestgridPrefix :: string

record CloudProvider =
  Args :: "string list"

record Image =
  Args :: "string list"
  TestgridPrefix :: string

record K8SVersion =
  Args :: "string list"
  Version :: string

record NodeK8SVersion =
  Args :: "string list"
  ProwImage :: string

record TestSuite =
  Args :: "string list"
  Resources :: Resources
  Cluster :: string

record ConfigFile =
  Jobs :: "(string \<times> Job) list"
  CloudProviders :: "string \<rightharpoonup> CloudProvider"
  Common :: Common
  Images :: "string \<rightharpoonup> Image"
  K8SVersions :: "string \<rightharpoonup> K8SVersion"
  TestSuites :: "string \<rightharpoonup> TestSuite"
  NodeTestSuites :: "string \<rightharpoonup> TestSuite"
  NodeK8SVersions :: "string \<rightharpoonup> NodeK8SVersion"
  NodeImages :: "string \<rightharpoonup> Image"
  NodeCommon :: Common

record DecorationConfig =
  Timeout :: string

record Container =
  Command :: "string list"
  Args :: "string list"
  Env :: string
  Image :: string
  Resources :: Resources

record Spec =
  Containers :: "Container list"

record Periodic =
  Tags :: "string list"
  Interval :: string
  Cron :: string
  Labels :: "string \<rightharpoonup> string"
  Decorate :: bool
  DecorationConfig :: DecorationConfig
  Name :: string
  Spec :: Spec
  Cluster :: string
  Annotations :: "string \<rightharpoonup> string"

record ConfigurationValue =
  ConfigurationValue :: string

record TestGroup =
  Name :: string
  GCSPrefix :: string
  ColumnHeader :: "ConfigurationValue list"

record ProwConfigFile =
  Periodics :: "Periodic list"

record TestgridConfig =
  TestGroups :: "TestGroup list"

text \<open>
  \<open>EnvFilename\<close> of \<open>E2ETest\<close> (a cleaned file path built from the output directory) is
  written once and never read by the generator; the field is left out. The field
  \<open>fields\<close> is \<open>fields'\<close> here, the plain name being taken by the record package.
\<close>

record E2ETest =
  JobName :: string
  fields' :: "string list"
  Job :: Job
  Common :: Common
  CloudProvider :: CloudProvider
  Image :: Image
  K8SVersion :: K8SVersion
  TestSuite :: TestSuite

record E2ENodeTest =
  JobName :: string
  fields' :: "string list"
  Job :: Job
  Common :: Common
  Image :: Image
  K8SVersion :: NodeK8SVersion
  TestSuite :: TestSuite

text \<open>Zero values, and map reads that fall back to them.\<close>

definition zeroComputeResources :: ComputeResources where
  "zeroComputeResources = \<lparr>CPU = [], Memory = []\<rparr>"

definition zeroResources :: Resources where
  "zeroResources = \<lparr>Requests = zeroComputeResources, Limits = zeroComputeResources\<rparr>"

definition zeroJob :: Job where
  "zeroJob = \<lparr>Job.Scenario = [], Job.Interval = [], Job.Cron = [], Job.SigOwners = [],
     Job.ReleaseBlocking = False, Job.ReleaseInforming = False, Job.Cluster = [],
     Job.TestgridNumFailuresToAlert = 0, Job.Args = [], Job.Resources = zeroResources\<rparr>"

definition zeroCloudProvider :: CloudProvider where
  "zeroCloudProvider = \<lparr>CloudProvider.Args = []\<rparr>"

definition zeroImage :: Image where
  "zeroImage = \<lparr>Image.Args = [], Image.TestgridPrefix = []\<rparr>"

definition zeroK8SVersion :: K8SVersion where
  "zeroK8SVersion = \<lparr>K8SVersion.Args = [], K8SVersion.Version = []\<rparr>"

definition zeroNodeK8SVersion :: NodeK8SVersion where
  "zeroNodeK8SVersion = \<lparr>NodeK8SVersion.Args = [], NodeK8SVersion.ProwImage = []\<rparr>"

definition zeroTestSuite :: TestSuite where
  "zeroTestSuite = \<lparr>TestSuite.Args = [], TestSuite.Resources = zeroResources, TestSuite.Cluster = []\<rparr>"

definition zeroTestGroup :: TestGroup where
  "zeroTestGroup = \<lparr>TestGroup.Name = [], TestGroup.GCSPrefix = [], TestGroup.ColumnHeader = []\<rparr>"

definition lookup :: "'v \<Rightarrow> (string \<rightharpoonup> 'v) \<Rightarrow> string \<Rightarrow> 'v" where
  "lookup zero m k = (case m k of None \<Rightarrow> zero | Some v \<Rightarrow> v)"

text \<open>
  The ways the program stops without output. The first five are \<open>log.Fatal\<close> calls
  (a message and exit status 1); the last is the run-time panic of a slice expression
  whose bounds are out of range.
\<close>

datatype error =
  ExpectedAtLeast3Fields
  | UnexpectedJobType
  | Expected7Fields
  | Expected6Fields
  | NoIntervalOrCron
  | TimeoutParseError
  | SliceBoundsOutOfRange

text \<open>The malformed-job-name errors among them.\<close>

fun jobNameError :: "error \<Rightarrow> bool" where
  "jobNameError ExpectedAtLeast3Fields = True"
| "jobNameError UnexpectedJobType = True"
| "jobNameError Expected7Fields = True"
| "jobNameError Expected6Fields = True"
| "jobNameError NoIntervalOrCron = False"
| "jobNameError TimeoutParseError = False"
| "jobNameError SliceBoundsOutOfRange = False"

section \<open>The emptiness tests\<close>

text \<open>As the source writes them: each returns \<open>true\<close> when a field is set.\<close>

definition ComputeResources_isEmpty :: "ComputeResources \<Rightarrow> bool" where
  "ComputeResources_isEmpty cr = (CPU cr \<noteq> [] \<or> Memory cr \<noteq> [])"

definition Resources_isEmpty :: "Resources \<Rightarrow> bool" where
  "Resources_isEmpty r =
     (\<not> ComputeResources_isEmpty (Limits r) \<or> \<not> ComputeResources_isEmpty (Requests r))"

definition TestGroup_isEmpty :: "TestGroup \<Rightarrow> bool" where
  "TestGroup_isEmpty tg =
     (TestGroup.Name tg \<noteq> [] \<or> TestGroup.GCSPrefix tg \<noteq> [] \<or> length (TestGroup.ColumnHeader tg) \<noteq> 0)"

section \<open>Building the periodic job\<close>

text \<open>
  \<open>getProwConfig\<close> of \<open>E2ETest\<close> and of \<open>E2ENodeTest\<close> share their text up to the last
  lines of the node variant. The shared steps are the next definitions, in the order
  the source runs them: the literal, cluster, resources, schedule, timeout.
\<close>

definition newPeriodic :: "string \<Rightarrow> Periodic" where
  "newPeriodic jobName =
     \<lparr>Periodic.Tags = [''generated''],
      Periodic.Interval = [],
      Periodic.Cron = [],
      Periodic.Labels = [''preset-service-account'' \<mapsto> ''true'', ''preset-k8s-ssh'' \<mapsto> ''true''],
      Periodic.Decorate = True,
      Periodic.DecorationConfig = \<lparr>Timeout = ''180m''\<rparr>,
      Periodic.Name = jobName,
      Periodic.Spec = \<lparr>Containers =
        [\<lparr>Container.Command = [],
          Container.Args = [],
          Container.Env = [],
          Container.Image = ''gcr.io/k8s-staging-test-infra/kubekins-e2e:v20231206-f7b83ffbe6-master'',
          Container.Resources =
            \<lparr>Requests = \<lparr>CPU = ''1000m'', Memory = ''3Gi''\<rparr>,
             Limits = \<lparr>CPU = ''1000m'', Memory = ''3Gi''\<rparr>\<rparr>\<rparr>]\<rparr>,
      Periodic.Cluster = [],
      Periodic.Annotations = Map.empty\<rparr>"

text \<open>
  An assignment to a field of \<open>Spec.Containers[0]\<close>. The list always holds the one
  container of the literal above, so the index is in range.
\<close>

definition updContainer0 :: "(Container \<Rightarrow> Container) \<Rightarrow> Periodic \<Rightarrow> Periodic" where
  "updContainer0 f p =
     p\<lparr>Periodic.Spec := (Periodic.Spec p)
          \<lparr>Containers := (Containers (Periodic.Spec p))[0 := f (Containers (Periodic.Spec p) ! 0)]\<rparr>\<rparr>"

definition setCluster :: "TestSuite \<Rightarrow> Job \<Rightarrow> Periodic \<Rightarrow> Periodic" where
  "setCluster testSuite job prowConfig =
     (if TestSuite.Cluster testSuite \<noteq> [] then prowConfig\<lparr>Periodic.Cluster := TestSuite.Cluster testSuite\<rparr>
      else if Job.Cluster job \<noteq> [] then prowConfig\<lparr>Periodic.Cluster := Job.Cluster job\<rparr>
      else prowConfig)"

definition setResources :: "TestSuite \<Rightarrow> Job \<Rightarrow> Periodic \<Rightarrow> Periodic" where
  "setResources testSuite job prowConfig =
     (if \<not> Resources_isEmpty (TestSuite.Resources testSuite)
      then updContainer0 (\<lambda>c. c\<lparr>Container.Resources := TestSuite.Resources testSuite\<rparr>) prowConfig
      else if \<not> Resources_isEmpty (Job.Resources job)
      then updContainer0 (\<lambda>c. c\<lparr>Container.Resources := Job.Resources job\<rparr>) prowConfig
      else prowConfig)"

definition setSchedule :: "Job \<Rightarrow> Periodic \<Rightarrow> error + Periodic" where
  "setSchedule job prowConfig =
     (if Job.Interval job \<noteq> []
      then Inr (prowConfig\<lparr>Periodic.Cron := [], Periodic.Interval := Job.Interval job\<rparr>)
      else if Job.Cron job \<noteq> []
      then Inr (prowConfig\<lparr>Periodic.Interval := [], Periodic.Cron := Job.Cron job\<rparr>)
      else Inl NoIntervalOrCron)"

text \<open>
  The scan for \<open>--timeout=\<close>. \<open>timeout\<close> starts as 0, the zero value of \<open>int\<close>. The first
  entry with the prefix decides: the slice \<open>arg[10 : len(arg)-1]\<close> panics when the entry is
  the bare prefix, a value \<open>Atoi\<close> rejects is fatal, and the loop ends at that entry.
\<close>

fun timeoutLoop :: "string list \<Rightarrow> error + int" where
  "timeoutLoop [] = Inr 0"
| "timeoutLoop (arg # args) =
     (if prefix ''--timeout='' arg then
        (if length arg - 1 < 10 then Inl SliceBoundsOutOfRange
         else (case Atoi (drop 10 (take (length arg - 1) arg)) of
                 None \<Rightarrow> Inl TimeoutParseError
               | Some timeout \<Rightarrow> Inr timeout))
      else timeoutLoop args)"

definition setTimeout :: "TestSuite \<Rightarrow> Periodic \<Rightarrow> error + Periodic" where
  "setTimeout testSuite prowConfig =
     (case timeoutLoop (TestSuite.Args testSuite) of
        Inl e \<Rightarrow> Inl e
      | Inr timeout \<Rightarrow>
          (let newTimeout = Itoa (wrap64 (timeout + 20)) @ ''m''
           in Inr (prowConfig\<lparr>Periodic.DecorationConfig := \<lparr>Timeout = newTimeout\<rparr>\<rparr>)))"

definition E2ETest_getProwConfig :: "E2ETest \<Rightarrow> TestSuite \<Rightarrow> error + Periodic" where
  "E2ETest_getProwConfig et testSuite =
     (let prowConfig = newPeriodic (E2ETest.JobName et);
          prowConfig = setCluster testSuite (E2ETest.Job et) prowConfig;
          prowConfig = setResources testSuite (E2ETest.Job et) prowConfig
      in case setSchedule (E2ETest.Job et) prowConfig of
           Inl e \<Rightarrow> Inl e
         | Inr prowConfig \<Rightarrow> setTimeout testSuite prowConfig)"

definition E2ENodeTest_getProwConfig :: "E2ENodeTest \<Rightarrow> TestSuite \<Rightarrow> NodeK8SVersion \<Rightarrow> error + Periodic" where
  "E2ENodeTest_getProwConfig ent testSuite k8sVersion =
     (let prowConfig = newPeriodic (E2ENodeTest.JobName ent);
          prowConfig = setCluster testSuite (E2ENodeTest.Job ent) prowConfig;
          prowConfig = setResources testSuite (E2ENodeTest.Job ent) prowConfig
      in case setSchedule (E2ENodeTest.Job ent) prowConfig of
           Inl e \<Rightarrow> Inl e
         | Inr prowConfig \<Rightarrow>
             (case setTimeout testSuite prowConfig of
                Inl e \<Rightarrow> Inl e
              | Inr prowConfig \<Rightarrow>
                  (let prowConfig = updContainer0
                         (\<lambda>c. c\<lparr>Container.Args := Container.Args c @ NodeK8SVersion.Args k8sVersion\<rparr>) prowConfig;
                       prowConfig = updContainer0
                         (\<lambda>c. c\<lparr>Container.Args := Container.Args c @ [''--root=/go/src'']\<rparr>) prowConfig;
                       prowConfig =
                         (if NodeK8SVersion.ProwImage k8sVersion \<noteq> []
                          then updContainer0 (\<lambda>c. c\<lparr>Container.Image := NodeK8SVersion.ProwImage k8sVersion\<rparr>) prowConfig
                          else prowConfig)
                   in Inr prowConfig)))"

section \<open>The e2e job\<close>

text \<open>
  \<open>newE2ETest\<close>: the field count is checked, then the struct literal reads the axis
  maps. The slice \<open>fields[5][3:]\<close> panics when that field has fewer than three bytes.
\<close>

definition newE2ETest :: "string \<Rightarrow> string \<Rightarrow> Job \<Rightarrow> ConfigFile \<Rightarrow> error + E2ETest" where
  "newE2ETest outputDir jobName job config =
     (let fields = Split jobName (CHR ''-'')
      in if length fields \<noteq> 7 then Inl Expected7Fields
         else if length (fields ! 5) < 3 then Inl SliceBoundsOutOfRange
         else Inr \<lparr>E2ETest.JobName = jobName,
                   E2ETest.fields' = fields,
                   E2ETest.Job = job,
                   E2ETest.Common = ConfigFile.Common config,
                   E2ETest.CloudProvider = lookup zeroCloudProvider (CloudProviders config) (fields ! 3),
                   E2ETest.Image = lookup zeroImage (Images config) (fields ! 4),
                   E2ETest.K8SVersion = lookup zeroK8SVersion (K8SVersions config) (drop 3 (fields ! 5)),
                   E2ETest.TestSuite = lookup zeroTestSuite (TestSuites config) (fields ! 6)\<rparr>)"

definition E2ETest_InitializeDashBoardsWithReleaseBlockingInfo :: "E2ETest \<Rightarrow> string \<Rightarrow> string list" where
  "E2ETest_InitializeDashBoardsWithReleaseBlockingInfo et version =
     (let dashboards = [];
          dashboard = ''sig-release-generated'';
          dashboard =
            (if Job.ReleaseBlocking (E2ETest.Job et) then ''sig-release-'' @ version @ ''-blocking''
             else if Job.ReleaseInforming (E2ETest.Job et) then ''sig-release-'' @ version @ ''-informing''
             else dashboard)
      in dashboards @ [dashboard])"

definition E2ETest_getJobDefinition :: "E2ETest \<Rightarrow> string list \<Rightarrow> Job" where
  "E2ETest_getJobDefinition et args =
     (let rSigOwner = Job.SigOwners (E2ETest.Job et);
          rSigOwner = (if length rSigOwner = 0 then [''UNKOWN''] else rSigOwner)
      in zeroJob\<lparr>Job.Scenario := ''kubernetes_e2e'', Job.Args := args, Job.SigOwners := rSigOwner\<rparr>)"

definition E2ETest_getTestGridConfig :: "E2ETest \<Rightarrow> TestGroup" where
  "E2ETest_getTestGridConfig et =
     \<lparr>TestGroup.Name = E2ETest.JobName et,
      TestGroup.GCSPrefix = ''kubernetes-jenkins/logs/'' @ E2ETest.JobName et,
      TestGroup.ColumnHeader =
        [\<lparr>ConfigurationValue = ''node_os_image''\<rparr>,
         \<lparr>ConfigurationValue = ''master_os_image''\<rparr>,
         \<lparr>ConfigurationValue = ''Commit''\<rparr>,
         \<lparr>ConfigurationValue = ''infra-commit''\<rparr>]\<rparr>"

definition E2ETest_generate :: "E2ETest \<Rightarrow> error + (Job \<times> Periodic \<times> TestGroup)" where
  "E2ETest_generate et =
     (if length (E2ETest.fields' et) \<noteq> 7 then Inl Expected7Fields
      else
        (let image = E2ETest.Image et;
             cloudProvider = E2ETest.CloudProvider et;
             K8SVersion = E2ETest.K8SVersion et;
             testSuite = E2ETest.TestSuite et;
             args = [];
             args = args @ getArgs (E2ETest.JobName et) (Common.Args (E2ETest.Common et));
             args = args @ getArgs (E2ETest.JobName et) (CloudProvider.Args cloudProvider);
             args = args @ getArgs (E2ETest.JobName et) (Image.Args image);
             args = args @ getArgs (E2ETest.JobName et) (K8SVersion.Args K8SVersion);
             args = args @ getArgs (E2ETest.JobName et) (TestSuite.Args testSuite);
             jobConfig = E2ETest_getJobDefinition et args
         in case E2ETest_getProwConfig et testSuite of
              Inl e \<Rightarrow> Inl e
            | Inr prowConfig \<Rightarrow>
                (let tgConfig = E2ETest_getTestGridConfig et;
                     fields = E2ETest.fields' et;
                     tabName = fields ! 3 @ ''-'' @ fields ! 4 @ ''-'' @ fields ! 5 @ ''-'' @ fields ! 6;
                     prowConfig = prowConfig\<lparr>Periodic.Annotations :=
                       (Periodic.Annotations prowConfig)(''testgrid-tab-name'' \<mapsto> tabName)\<rparr>;
                     dashboards = E2ETest_InitializeDashBoardsWithReleaseBlockingInfo et (K8SVersion.Version K8SVersion);
                     dashboards =
                       (if Image.TestgridPrefix image \<noteq> []
                        then dashboards @ [Image.TestgridPrefix image @ ''-'' @ fields ! 4 @ ''-'' @ fields ! 5]
                        else dashboards);
                     prowConfig = prowConfig\<lparr>Periodic.Annotations :=
                       (Periodic.Annotations prowConfig)(''testgrid-dashboards'' \<mapsto> Join dashboards '', '')\<rparr>;
                     prowConfig = prowConfig\<lparr>Periodic.Annotations :=
                       (Periodic.Annotations prowConfig)(''testgrid-num-failures-to-alert'' \<mapsto>
                          Itoa (Job.TestgridNumFailuresToAlert (E2ETest.Job et)))\<rparr>
                 in Inr (jobConfig, prowConfig, tgConfig))))"

section \<open>The e2enode job\<close>

definition newE2ENodeTest :: "string \<Rightarrow> Job \<Rightarrow> ConfigFile \<Rightarrow> error + E2ENodeTest" where
  "newE2ENodeTest jobName job config =
     (let fields = Split jobName (CHR ''-'')
      in if length fields \<noteq> 6 then Inl Expected6Fields
         else if length (fields ! 4) < 3 then Inl SliceBoundsOutOfRange
         else Inr \<lparr>E2ENodeTest.JobName = jobName,
                   E2ENodeTest.fields' = fields,
                   E2ENodeTest.Job = job,
                   E2ENodeTest.Common = ConfigFile.Common config,
                   E2ENodeTest.Image = lookup zeroImage (Images config) (fields ! 3),
                   E2ENodeTest.K8SVersion = lookup zeroNodeK8SVersion (NodeK8SVersions config) (drop 3 (fields ! 4)),
                   E2ENodeTest.TestSuite = lookup zeroTestSuite (TestSuites config) (fields ! 5)\<rparr>)"

definition E2ENodeTest_getJobDefinition :: "E2ENodeTest \<Rightarrow> string list \<Rightarrow> Job" where
  "E2ENodeTest_getJobDefinition ent args =
     (let rSigOwner = Job.SigOwners (E2ENodeTest.Job ent);
          rSigOwner = (if length rSigOwner = 0 then [''UNKOWN''] else rSigOwner)
      in zeroJob\<lparr>Job.Scenario := ''kubernetes_e2e'', Job.Args := args, Job.SigOwners := rSigOwner\<rparr>)"

text \<open>
  The node-argument pass of \<open>generate\<close>, with its two loops. The first sorts every
  entry into \<open>nodeArgs\<close> (what follows its first \<open>=\<close>) or \<open>jobArgs\<close>; an entry that
  contains the flag has an \<open>=\<close>, so \<open>SplitN\<close> gives two fields and index 1 is in range.
  The second appends each value and a space to the flag. \<open>coalesceNodeArgs\<close> is the
  block of \<open>generate\<close> that runs them and ends with \<open>jobConfig.Args = jobArgs\<close>.
\<close>

fun nodeArgsLoop :: "string list \<Rightarrow> string list \<times> string list \<Rightarrow> string list \<times> string list" where
  "nodeArgsLoop [] (nodeArgs, jobArgs) = (nodeArgs, jobArgs)"
| "nodeArgsLoop (arg # args) (nodeArgs, jobArgs) =
     (if Contains arg ''--node-args=''
      then nodeArgsLoop args (nodeArgs @ [SplitN2 arg (CHR ''='') ! 1], jobArgs)
      else nodeArgsLoop args (nodeArgs, jobArgs @ [arg]))"

fun nodeFlagLoop :: "string list \<Rightarrow> string \<Rightarrow> string" where
  "nodeFlagLoop [] nodeFlag = nodeFlag"
| "nodeFlagLoop (arg # args) nodeFlag = nodeFlagLoop args (nodeFlag @ arg @ '' '')"

definition coalesceNodeArgs :: "string list \<Rightarrow> string list" where
  "coalesceNodeArgs args =
     (case nodeArgsLoop args ([], []) of
        (nodeArgs, jobArgs) \<Rightarrow>
          (let nodeFlag = ''--node-args=''
           in if length nodeArgs \<noteq> 0
              then jobArgs @ [TrimSpace (nodeFlagLoop nodeArgs nodeFlag)]
              else jobArgs))"

definition E2ENodeTest_generate :: "E2ENodeTest \<Rightarrow> error + (Job \<times> Periodic)" where
  "E2ENodeTest_generate ent =
     (if length (E2ENodeTest.fields' ent) \<noteq> 6 then Inl Expected6Fields
      else
        (let image = E2ENodeTest.Image ent;
             K8SVersion = E2ENodeTest.K8SVersion ent;
             testSuite = E2ENodeTest.TestSuite ent;
             args = [];
             args = args @ getArgs (E2ENodeTest.JobName ent) (Common.Args (E2ENodeTest.Common ent));
             args = args @ getArgs (E2ENodeTest.JobName ent) (Image.Args image);
             args = args @ getArgs (E2ENodeTest.JobName ent) (TestSuite.Args testSuite);
             jobConfig = E2ENodeTest_getJobDefinition ent args
         in case E2ENodeTest_getProwConfig ent testSuite K8SVersion of
              Inl e \<Rightarrow> Inl e
            | Inr prowConfig \<Rightarrow>
                (let jobConfig = jobConfig\<lparr>Job.Args := coalesceNodeArgs (Job.Args jobConfig)\<rparr>;
                     fields = E2ENodeTest.fields' ent;
                     prowConfig =
                       (if Image.TestgridPrefix image \<noteq> []
                        then prowConfig\<lparr>Periodic.Annotations :=
                               (Periodic.Annotations prowConfig)
                                 (''testgrid-dashboards'' \<mapsto>
                                    Image.TestgridPrefix image @ ''-'' @ fields ! 3 @ ''-'' @ fields ! 4,
                                  ''testgrid-tab-name'' \<mapsto>
                                    fields ! 3 @ ''-'' @ fields ! 4 @ ''-'' @ fields ! 5)\<rparr>
                        else prowConfig)
                 in Inr (jobConfig, prowConfig))))"

section \<open>One job, and the batch\<close>

definition forEachJob :: "string \<Rightarrow> string \<Rightarrow> Job \<Rightarrow> ConfigFile \<Rightarrow> error + (Periodic \<times> TestGroup)" where
  "forEachJob outputDir jobName job config =
     (let fields = Split jobName (CHR ''-'')
      in if length fields < 3 then Inl ExpectedAtLeast3Fields
         else
           (let jobType = fields ! 2;
                generated =
                  (if jobType = ''e2e'' then
                     (case newE2ETest outputDir jobName job config of
                        Inl e \<Rightarrow> Inl e
                      | Inr e2eTest \<Rightarrow> E2ETest_generate e2eTest)
                   else if jobType = ''e2enode'' then
                     (case newE2ENodeTest jobName job config of
                        Inl e \<Rightarrow> Inl e
                      | Inr e2eNodeTest \<Rightarrow>
                          (case E2ENodeTest_generate e2eNodeTest of
                             Inl e \<Rightarrow> Inl e
                           | Inr (jobConfig, prowConfig) \<Rightarrow> Inr (jobConfig, prowConfig, zeroTestGroup)))
                   else Inl UnexpectedJobType)
            in case generated of
                 Inl e \<Rightarrow> Inl e
               | Inr (jobConfig, prowConfig, testgridConfig) \<Rightarrow>
                   (let jobConfig = jobConfig\<lparr>Job.Args :=
                          applyJobOverrides (Job.Args jobConfig) (getArgs jobName (Job.Args job))\<rparr>;
                        prowConfig = updContainer0
                          (\<lambda>c. c\<lparr>Container.Args := Container.Args c @ Job.Args jobConfig\<rparr>) prowConfig;
                        file = ''/workspace/scenarios/'' @ Job.Scenario jobConfig @ ''.py'';
                        prowConfig = updContainer0
                          (\<lambda>c. c\<lparr>Container.Command := [''runner.sh'', file]\<rparr>) prowConfig
                    in Inr (prowConfig, testgridConfig))))"

text \<open>
  The loop of \<open>main\<close> over the sorted job names. \<open>config.Jobs[jobName]\<close> is the entry the
  name came from; a fatal error or panic in any job ends the program before anything
  is written, so the result is either the error or both finished documents.
\<close>

fun compileJobs ::
  "string \<Rightarrow> ConfigFile \<Rightarrow> string list \<Rightarrow> ProwConfigFile \<Rightarrow> TestgridConfig
     \<Rightarrow> error + (ProwConfigFile \<times> TestgridConfig)" where
  "compileJobs outputDir config [] outputConfig testgridConfig = Inr (outputConfig, testgridConfig)"
| "compileJobs outputDir config (jobName # jobNames) outputConfig testgridConfig =
     (case forEachJob outputDir jobName (lookup zeroJob (map_of (Jobs config)) jobName) config of
        Inl e \<Rightarrow> Inl e
      | Inr (prow, testgrid) \<Rightarrow>
          (let outputConfig = outputConfig\<lparr>Periodics := Periodics outputConfig @ [prow]\<rparr>;
               testgridConfig =
                 (if \<not> TestGroup_isEmpty testgrid
                  then testgridConfig\<lparr>TestGroups := TestGroups testgridConfig @ [testgrid]\<rparr>
                  else testgridConfig)
           in compileJobs outputDir config jobNames outputConfig testgridConfig))"

definition main :: "string \<Rightarrow> ConfigFile \<Rightarrow> error + (ProwConfigFile \<times> TestgridConfig)" where
  "main outputDir config =
     (let jobNames = sort (remdups (map fst (Jobs config)));
          outputConfig = \<lparr>Periodics = []\<rparr>;
          testgridConfig = \<lparr>TestGroups = []\<rparr>
      in compileJobs outputDir config jobNames outputConfig testgridConfig)"

section \<open>Notions of the specification\<close>

text \<open>
  The words the specification uses about arguments and job names, as definitions of
  their own; the lemmas below relate them to what the code computes.
\<close>



text \<open>The value of a node argument: the text after its first \<open>=\<close>.\<close>

definition nodeArgValue :: "string \<Rightarrow> string" where
  "nodeArgValue arg = tl (dropWhile (\<lambda>c. c \<noteq> CHR ''='') arg)"

text \<open>Numeric text: an optional sign and at least one decimal digit.\<close>

definition numericText :: "string \<Rightarrow> bool" where
  "numericText v =
     (case v of
        [] \<Rightarrow> False
      | c # r \<Rightarrow> if c = CHR ''-'' \<or> c = CHR ''+'' then r \<noteq> [] \<and> list_all isDigit r
                else list_all isDigit v)"

text \<open>The primary dashboard of an e2e job, from its two release flags and a version.\<close>

definition primaryDashboard :: "bool \<Rightarrow> bool \<Rightarrow> string \<Rightarrow> string" where
  "primaryDashboard releaseBlocking releaseInforming version =
     (if releaseBlocking then ''sig-release-'' @ version @ ''-blocking''
      else if releaseInforming then ''sig-release-'' @ version @ ''-informing''
      else ''sig-release-generated'')"

text \<open>The shape rules of the job-name parser: the kind at index 2 and its field count.\<close>

definition conformingJobName :: "string \<Rightarrow> bool" where
  "conformingJobName jobName =
     (let fields = Split jobName (CHR ''-'')
      in (length fields = 7 \<and> fields ! 2 = ''e2e'') \<or> (length fields = 6 \<and> fields ! 2 = ''e2enode''))"

section \<open>Sample inputs\<close>

text \<open>
  A small configuration document in the shape of the real one, with the test suite's
  arguments and the job list left open, and the two test structs the constructors
  build from it for the job names below.
\<close>

definition exampleJob :: Job where
  "exampleJob = zeroJob\<lparr>Job.Interval := ''1h'', Job.ReleaseBlocking := True\<rparr>"

definition exampleConfig :: "(string \<times> Job) list \<Rightarrow> string list \<Rightarrow> ConfigFile" where
  "exampleConfig jobs suiteArgs =
     \<lparr>Jobs = jobs,
      CloudProviders = [''gce'' \<mapsto> \<lparr>CloudProvider.Args = [''--provider=gce'']\<rparr>],
      Common = \<lparr>Common.Args = [''--node-args=a''], Common.TestgridPrefix = []\<rparr>,
      Images = [''cos'' \<mapsto> \<lparr>Image.Args = [''--x=1''], Image.TestgridPrefix = ''google-gce''\<rparr>],
      K8SVersions = [''beta'' \<mapsto>
        \<lparr>K8SVersion.Args = [''--extract=ci/latest-1.29''], K8SVersion.Version = ''1.29''\<rparr>],
      TestSuites = [''default'' \<mapsto> zeroTestSuite\<lparr>TestSuite.Args := suiteArgs\<rparr>],
      NodeTestSuites = Map.empty,
      NodeK8SVersions = [''beta'' \<mapsto> zeroNodeK8SVersion],
      NodeImages = Map.empty,
      NodeCommon = \<lparr>Common.Args = [], Common.TestgridPrefix = []\<rparr>\<rparr>"

definition exampleE2ETest :: "string list \<Rightarrow> E2ETest" where
  "exampleE2ETest suiteArgs =
     \<lparr>E2ETest.JobName = ''ci-kubernetes-e2e-gce-cos-k8sbeta-default'',
      E2ETest.fields' = [''ci'', ''kubernetes'', ''e2e'', ''gce'', ''cos'', ''k8sbeta'', ''default''],
      E2ETest.Job = exampleJob,
      E2ETest.Common = \<lparr>Common.Args = [''--node-args=a''], Common.TestgridPrefix = []\<rparr>,
      E2ETest.CloudProvider = \<lparr>CloudProvider.Args = [''--provider=gce'']\<rparr>,
      E2ETest.Image = \<lparr>Image.Args = [''--x=1''], Image.TestgridPrefix = ''google-gce''\<rparr>,
      E2ETest.K8SVersion =
        \<lparr>K8SVersion.Args = [''--extract=ci/latest-1.29''], K8SVersion.Version = ''1.29''\<rparr>,
      E2ETest.TestSuite = zeroTestSuite\<lparr>TestSuite.Args := suiteArgs\<rparr>\<rparr>"

definition exampleE2ENodeTest :: "string list \<Rightarrow> E2ENodeTest" where
  "exampleE2ENodeTest suiteArgs =
     \<lparr>E2ENodeTest.JobName = ''ci-kubernetes-e2enode-cos-k8sbeta-default'',
      E2ENodeTest.fields' = [''ci'', ''kubernetes'', ''e2enode'', ''cos'', ''k8sbeta'', ''default''],
      E2ENodeTest.Job = exampleJob,
      E2ENodeTest.Common = \<lparr>Common.Args = [''--node-args=a''], Common.TestgridPrefix = []\<rparr>,
      E2ENodeTest.Image = \<lparr>Image.Args = [''--x=1''], Image.TestgridPrefix = ''google-gce''\<rparr>,
      E2ENodeTest.K8SVersion = zeroNodeK8SVersion,
      E2ENodeTest.TestSuite = zeroTestSuite\<lparr>TestSuite.Args := suiteArgs\<rparr>\<rparr>"

section \<open>Facts about the string functions\<close>

lemma Split_not_Nil: "Split s sep \<noteq> []"
  by (induction s) (auto split: list.splits)


lemma Contains_set: "Contains s sub \<Longrightarrow> set sub \<subseteq> set s"
proof (induction s)
  case Nil
  then show ?case by simp
next
  case (Cons c s)
  from Cons.prems consider "prefix sub (c # s)" | "Contains s sub"
    by auto
  then show ?case
  proof cases
    case 1
    then show ?thesis
      by (rule set_mono_prefix)
  next
    case 2
    with Cons.IH show ?thesis
      by auto
  qed
qed

lemma whiteSpace_last:
  "\<forall>p\<in>set whiteSpace. p \<noteq> [] \<and> (length p = 1 \<or> last p \<noteq> CHR '' '')"
  by (simp add: whiteSpace_def)

lemma find_whiteSpace_snoc:
  assumes "s \<noteq> []"
  shows "find (\<lambda>p. p \<noteq> [] \<and> prefix p (s @ '' '')) whiteSpace = find (\<lambda>p. p \<noteq> [] \<and> prefix p s) whiteSpace"
proof (rule find_cong [OF refl])
  fix p
  assume "p \<in> set whiteSpace"
  with whiteSpace_last have p: "p \<noteq> []" "length p = 1 \<or> last p \<noteq> CHR '' ''"
    by auto
  have "p \<noteq> s @ '' ''"
  proof
    assume eq: "p = s @ '' ''"
    with assms have "length p \<noteq> 1" "last p = CHR '' ''"
      by auto
    with p show False by simp
  qed
  then have "prefix p (s @ '' '') = prefix p s"
    using prefix_snoc [of p s "CHR '' ''"] by simp
  then show "(p \<noteq> [] \<and> prefix p (s @ '' '')) = (p \<noteq> [] \<and> prefix p s)"
    by simp
qed

lemma trimLeft_Nil: "trimLeft seqs [] = []"
proof -
  have "find (\<lambda>p. p \<noteq> [] \<and> prefix p []) seqs = None"
    by (simp add: find_None_iff)
  then show ?thesis
    by (simp add: trimLeft.simps [of seqs "[]"])
qed

lemma trimLeft_space: "trimLeft whiteSpace '' '' = []"
proof -
  have "find (\<lambda>p. p \<noteq> [] \<and> prefix p '' '') whiteSpace = Some '' ''"
    by (simp add: whiteSpace_def)
  then show ?thesis
    by (simp add: trimLeft.simps [of whiteSpace "'' ''"] trimLeft_Nil)
qed

lemma trimLeft_snoc_space:
  "trimLeft whiteSpace (s @ '' '') = (if trimLeft whiteSpace s = [] then [] else trimLeft whiteSpace s @ '' '')"
proof (induction s rule: measure_induct_rule [where f = length])
  case (less s)
  show ?case
  proof (cases "s = []")
    case True
    then show ?thesis
      by (simp add: trimLeft_space trimLeft_Nil)
  next
    case False
    note fs = find_whiteSpace_snoc [OF False]
    show ?thesis
    proof (cases "find (\<lambda>p. p \<noteq> [] \<and> prefix p s) whiteSpace")
      case None
      with fs False show ?thesis
        by (simp add: trimLeft.simps [of whiteSpace s] trimLeft.simps [of whiteSpace "s @ '' ''"])
    next
      case (Some p)
      then have p: "prefix p s" "p \<noteq> []"
        by (auto simp: find_Some_iff)
      then have "drop (length p) (s @ '' '') = drop (length p) s @ '' ''"
        by (auto simp: prefix_def)
      moreover from p False have "length (drop (length p) s) < length s"
        by simp
      note less.IH [OF this]
      ultimately show ?thesis
        using Some fs
        by (simp add: trimLeft.simps [of whiteSpace s] trimLeft.simps [of whiteSpace "s @ '' ''"])
    qed
  qed
qed

lemma trimLeft_rev_space:
  "trimLeft (map rev whiteSpace) (CHR '' '' # t) = trimLeft (map rev whiteSpace) t"
proof -
  have "find (\<lambda>p. p \<noteq> [] \<and> prefix p (CHR '' '' # t)) (map rev whiteSpace) = Some '' ''"
    by (simp add: whiteSpace_def)
  then show ?thesis
    by (simp add: trimLeft.simps [of "map rev whiteSpace" "CHR '' '' # t"])
qed

lemma TrimSpace_snoc_space: "TrimSpace (s @ '' '') = TrimSpace s"
  by (simp add: TrimSpace_def trimLeft_snoc_space trimLeft_rev_space trimLeft_Nil)

section \<open>Facts about the override loop\<close>







section \<open>Facts about the node-argument pass\<close>

lemma Contains_flag_value:
  assumes "Contains arg ''--node-args=''"
  shows "SplitN2 arg (CHR ''='') ! Suc 0 = nodeArgValue arg"
proof -
  have "CHR ''='' \<in> set arg"
    using Contains_set [OF assms] by simp
  then show ?thesis
    by (simp add: SplitN2_def nodeArgValue_def)
qed

lemma nodeArgsLoop_filter:
  "nodeArgsLoop args (nodeArgs, jobArgs) =
     (nodeArgs @ map nodeArgValue (filter (\<lambda>a. Contains a ''--node-args='') args),
      jobArgs @ filter (\<lambda>a. \<not> Contains a ''--node-args='') args)"
proof (induction args arbitrary: nodeArgs jobArgs)
  case Nil
  show ?case by simp
next
  case (Cons arg args)
  show ?case
  proof (cases "Contains arg ''--node-args=''")
    case True
    then show ?thesis
      using Cons.IH [of "nodeArgs @ [nodeArgValue arg]" jobArgs]
      by (simp add: Contains_flag_value)
  next
    case False
    then show ?thesis
      using Cons.IH [of nodeArgs "jobArgs @ [arg]"]
      by simp
  qed
qed

lemma nodeFlagLoop_concat:
  "nodeFlagLoop vs nodeFlag = nodeFlag @ concat (map (\<lambda>v. v @ '' '') vs)"
  by (induction vs arbitrary: nodeFlag) auto

lemma concat_Join:
  "vs \<noteq> [] \<Longrightarrow> concat (map (\<lambda>v. v @ sep) vs) = Join vs sep @ sep"
  by (induction vs sep rule: Join.induct) auto

lemma coalesceNodeArgs_eq:
  "coalesceNodeArgs args =
     filter (\<lambda>a. \<not> Contains a ''--node-args='') args
     @ (if filter (\<lambda>a. Contains a ''--node-args='') args = [] then []
        else [TrimSpace (''--node-args='' @ Join (map nodeArgValue (filter (\<lambda>a. Contains a ''--node-args='') args)) '' '')])"
proof -
  let ?picked = "filter (\<lambda>a. Contains a ''--node-args='') args"
  have "TrimSpace (''--node-args='' @ concat (map (\<lambda>v. v @ '' '') (map nodeArgValue ?picked))) =
        TrimSpace (''--node-args='' @ Join (map nodeArgValue ?picked) '' '')" if "?picked \<noteq> []"
  proof -
    from that have "map nodeArgValue ?picked \<noteq> []"
      by simp
    from concat_Join [OF this, of "'' ''"]
    have "''--node-args='' @ concat (map (\<lambda>v. v @ '' '') (map nodeArgValue ?picked)) =
          (''--node-args='' @ Join (map nodeArgValue ?picked) '' '') @ '' ''"
      by simp
    then show ?thesis
      by (simp only: TrimSpace_snoc_space)
  qed
  then show ?thesis
    by (simp add: coalesceNodeArgs_def nodeArgsLoop_filter nodeFlagLoop_concat Let_def)
qed

section \<open>Facts about the timeout scan\<close>

lemma digit_char:
  assumes "d < 10"
  shows "isDigit (''0123456789'' ! d)" and "digitVal (''0123456789'' ! d) = d"
    and "''0123456789'' ! d \<noteq> CHR ''-''" and "''0123456789'' ! d \<noteq> CHR ''+''"
proof -
  from assms have "d \<in> {0, 1, 2, 3, 4, 5, 6, 7, 8, 9}"
    by auto
  then show "isDigit (''0123456789'' ! d)" and "digitVal (''0123456789'' ! d) = d"
    and "''0123456789'' ! d \<noteq> CHR ''-''" and "''0123456789'' ! d \<noteq> CHR ''+''"
    by (auto simp: isDigit_def digitVal_def)
qed

lemma natToString_digits:
  "natToString n \<noteq> [] \<and> list_all isDigit (natToString n) \<and> parseDigits (natToString n) = n
   \<and> hd (natToString n) \<noteq> CHR ''-'' \<and> hd (natToString n) \<noteq> CHR ''+''"
proof (induction n rule: natToString.induct)
  case (1 n)
  show ?case
  proof (cases "n < 10")
    case True
    then show ?thesis
      by (simp add: natToString.simps [of n] digit_char parseDigits_def)
  next
    case False
    have m: "n mod 10 < 10"
      by simp
    from False "1.IH" show ?thesis
      by (simp add: natToString.simps [of n] digit_char [OF m] parseDigits_def)
  qed
qed

lemma Atoi_natToString:
  assumes "n < 2 ^ 63"
  shows "Atoi (natToString n) = Some (int n)"
proof -
  from natToString_digits [of n] obtain c r where cr: "natToString n = c # r"
    by (cases "natToString n") auto
  with natToString_digits [of n] have "c \<noteq> CHR ''-''" "c \<noteq> CHR ''+''"
    by auto
  with cr natToString_digits [of n] assms show ?thesis
    by (simp add: Atoi_def Let_def)
qed

lemma Atoi_not_numeric: "\<not> numericText v \<Longrightarrow> Atoi v = None"
  by (auto simp: numericText_def Atoi_def Let_def split: list.splits if_splits)

lemma timeoutLoop_find:
  "timeoutLoop args =
     (case find (prefix ''--timeout='') args of
        None \<Rightarrow> Inr 0
      | Some arg \<Rightarrow>
          if length arg - 1 < 10 then Inl SliceBoundsOutOfRange
          else (case Atoi (drop 10 (take (length arg - 1) arg)) of
                  None \<Rightarrow> Inl TimeoutParseError
                | Some timeout \<Rightarrow> Inr timeout))"
  by (induction args) auto

lemma timeoutLoop_entry:
  assumes "find (prefix ''--timeout='') args = Some (''--timeout='' @ v @ [u])"
  shows "timeoutLoop args = (case Atoi v of None \<Rightarrow> Inl TimeoutParseError | Some timeout \<Rightarrow> Inr timeout)"
  using assms by (simp add: timeoutLoop_find)

lemma wrap64_id: "- (2 ^ 63) \<le> i \<Longrightarrow> i < 2 ^ 63 \<Longrightarrow> wrap64 i = i"
  by (simp add: wrap64_def)

lemma setTimeout_entry_value:
  assumes "find (prefix ''--timeout='') (TestSuite.Args testSuite) = Some (''--timeout='' @ natToString n @ [u])"
    and "n + 20 < 2 ^ 63"
  shows "setTimeout testSuite prowConfig =
           Inr (prowConfig\<lparr>Periodic.DecorationConfig := \<lparr>Timeout = natToString (n + 20) @ ''m''\<rparr>\<rparr>)"
proof -
  from assms(2) have "n < 2 ^ 63"
    by simp
  then have "timeoutLoop (TestSuite.Args testSuite) = Inr (int n)"
    using timeoutLoop_entry [OF assms(1)] by (simp add: Atoi_natToString)
  moreover have "wrap64 (int n + 20) = int (n + 20)"
    using assms(2) by (simp add: wrap64_id)
  moreover have "nat (int n + 20) = n + 20"
    by simp
  ultimately show ?thesis
    by (simp add: setTimeout_def Itoa_def)
qed

lemma setTimeout_entry_fatal:
  assumes "find (prefix ''--timeout='') (TestSuite.Args testSuite) = Some (''--timeout='' @ v @ [u])"
    and "\<not> numericText v"
  shows "setTimeout testSuite prowConfig = Inl TimeoutParseError"
  using timeoutLoop_entry [OF assms(1)] Atoi_not_numeric [OF assms(2)]
  by (simp add: setTimeout_def)

lemma setTimeout_default:
  assumes "find (prefix ''--timeout='') (TestSuite.Args testSuite) = None"
  shows "setTimeout testSuite prowConfig = Inr (prowConfig\<lparr>Periodic.DecorationConfig := \<lparr>Timeout = ''20m''\<rparr>\<rparr>)"
  using assms by (simp add: setTimeout_def timeoutLoop_find wrap64_def Itoa_def natToString.simps)

section \<open>Facts about the two job kinds\<close>

lemma timeoutLoop_Inl:
  "timeoutLoop args = Inl e \<Longrightarrow> e = SliceBoundsOutOfRange \<or> e = TimeoutParseError"
  by (induction args) (auto split: if_splits option.splits)

lemma setTimeout_Inl:
  "setTimeout testSuite prowConfig = Inl e \<Longrightarrow> e = SliceBoundsOutOfRange \<or> e = TimeoutParseError"
  by (auto simp: setTimeout_def Let_def split: sum.splits dest: timeoutLoop_Inl)

lemma setTimeout_Inr:
  "setTimeout testSuite prowConfig = Inr p \<Longrightarrow>
     Periodic.Interval p = Periodic.Interval prowConfig \<and> Periodic.Cron p = Periodic.Cron prowConfig"
  by (auto simp: setTimeout_def Let_def split: sum.splits)

lemma setSchedule_Inl:
  "setSchedule job prowConfig = Inl e \<longleftrightarrow> (e = NoIntervalOrCron \<and> Job.Interval job = [] \<and> Job.Cron job = [])"
  by (auto simp: setSchedule_def)

lemma setSchedule_Inr:
  "setSchedule job prowConfig = Inr p \<Longrightarrow> (Periodic.Interval p = []) \<noteq> (Periodic.Cron p = [])"
  by (auto simp: setSchedule_def split: if_splits)

lemma updContainer0_schedule [simp]:
  "Periodic.Interval (updContainer0 f p) = Periodic.Interval p"
  "Periodic.Cron (updContainer0 f p) = Periodic.Cron p"
  "Periodic.DecorationConfig (updContainer0 f p) = Periodic.DecorationConfig p"
  "Periodic.Annotations (updContainer0 f p) = Periodic.Annotations p"
  by (simp_all add: updContainer0_def)

lemma E2ETest_getProwConfig_Inl:
  "E2ETest_getProwConfig et testSuite = Inl e \<Longrightarrow>
     (e = NoIntervalOrCron \<and> Job.Interval (E2ETest.Job et) = [] \<and> Job.Cron (E2ETest.Job et) = [])
     \<or> e = SliceBoundsOutOfRange \<or> e = TimeoutParseError"
  by (auto simp: E2ETest_getProwConfig_def Let_def setSchedule_Inl split: sum.splits dest: setTimeout_Inl)

lemma E2ENodeTest_getProwConfig_Inl:
  "E2ENodeTest_getProwConfig ent testSuite k8sVersion = Inl e \<Longrightarrow>
     (e = NoIntervalOrCron \<and> Job.Interval (E2ENodeTest.Job ent) = [] \<and> Job.Cron (E2ENodeTest.Job ent) = [])
     \<or> e = SliceBoundsOutOfRange \<or> e = TimeoutParseError"
  by (auto simp: E2ENodeTest_getProwConfig_def Let_def setSchedule_Inl split: sum.splits dest: setTimeout_Inl)

lemma E2ETest_getProwConfig_no_schedule:
  "Job.Interval (E2ETest.Job et) = [] \<Longrightarrow> Job.Cron (E2ETest.Job et) = [] \<Longrightarrow>
     E2ETest_getProwConfig et testSuite = Inl NoIntervalOrCron"
  by (simp add: E2ETest_getProwConfig_def Let_def setSchedule_def)

lemma E2ENodeTest_getProwConfig_no_schedule:
  "Job.Interval (E2ENodeTest.Job ent) = [] \<Longrightarrow> Job.Cron (E2ENodeTest.Job ent) = [] \<Longrightarrow>
     E2ENodeTest_getProwConfig ent testSuite k8sVersion = Inl NoIntervalOrCron"
  by (simp add: E2ENodeTest_getProwConfig_def Let_def setSchedule_def)

lemma E2ETest_getProwConfig_Inr:
  "E2ETest_getProwConfig et testSuite = Inr p \<Longrightarrow> (Periodic.Interval p = []) \<noteq> (Periodic.Cron p = [])"
  by (auto simp: E2ETest_getProwConfig_def Let_def split: sum.splits dest!: setTimeout_Inr setSchedule_Inr)

lemma E2ENodeTest_getProwConfig_Inr:
  "E2ENodeTest_getProwConfig ent testSuite k8sVersion = Inr p \<Longrightarrow> (Periodic.Interval p = []) \<noteq> (Periodic.Cron p = [])"
  by (auto simp: E2ENodeTest_getProwConfig_def Let_def split: sum.splits if_splits dest!: setTimeout_Inr setSchedule_Inr)

lemma E2ETest_generate_Inl:
  "E2ETest_generate et = Inl e \<Longrightarrow>
     (e = Expected7Fields \<and> length (E2ETest.fields' et) \<noteq> 7)
     \<or> (length (E2ETest.fields' et) = 7 \<and> E2ETest_getProwConfig et (E2ETest.TestSuite et) = Inl e)"
  by (auto simp: E2ETest_generate_def Let_def split: if_splits sum.splits)

lemma E2ETest_generate_Inr:
  "E2ETest_generate et = Inr (jobConfig, prowConfig, tgConfig) \<Longrightarrow>
     length (E2ETest.fields' et) = 7 \<and> tgConfig = E2ETest_getTestGridConfig et \<and>
     (\<exists>p. E2ETest_getProwConfig et (E2ETest.TestSuite et) = Inr p
          \<and> Periodic.Interval prowConfig = Periodic.Interval p
          \<and> Periodic.Cron prowConfig = Periodic.Cron p
          \<and> Periodic.DecorationConfig prowConfig = Periodic.DecorationConfig p)"
  by (auto simp: E2ETest_generate_def Let_def split: if_splits sum.splits)

lemma E2ENodeTest_generate_Inl:
  "E2ENodeTest_generate ent = Inl e \<Longrightarrow>
     (e = Expected6Fields \<and> length (E2ENodeTest.fields' ent) \<noteq> 6)
     \<or> (length (E2ENodeTest.fields' ent) = 6 \<and>
         E2ENodeTest_getProwConfig ent (E2ENodeTest.TestSuite ent) (E2ENodeTest.K8SVersion ent) = Inl e)"
  by (auto simp: E2ENodeTest_generate_def Let_def split: if_splits sum.splits)

lemma E2ENodeTest_generate_Inr:
  "E2ENodeTest_generate ent = Inr (jobConfig, prowConfig) \<Longrightarrow>
     length (E2ENodeTest.fields' ent) = 6 \<and>
     (\<exists>p. E2ENodeTest_getProwConfig ent (E2ENodeTest.TestSuite ent) (E2ENodeTest.K8SVersion ent) = Inr p
          \<and> Periodic.Interval prowConfig = Periodic.Interval p
          \<and> Periodic.Cron prowConfig = Periodic.Cron p
          \<and> Periodic.DecorationConfig prowConfig = Periodic.DecorationConfig p)"
  by (auto simp: E2ENodeTest_generate_def Let_def split: if_splits sum.splits)

lemma newE2ETest_Inr:
  "newE2ETest outputDir jobName job config = Inr et \<Longrightarrow>
     E2ETest.Job et = job \<and> E2ETest.fields' et = Split jobName (CHR ''-'') \<and> E2ETest.JobName et = jobName
     \<and> length (Split jobName (CHR ''-'')) = 7 \<and> 3 \<le> length (Split jobName (CHR ''-'') ! 5)
     \<and> E2ETest.TestSuite et = lookup zeroTestSuite (TestSuites config) (Split jobName (CHR ''-'') ! 6)"
  by (auto simp: newE2ETest_def Let_def split: if_splits)

lemma newE2ETest_Inl:
  "newE2ETest outputDir jobName job config = Inl e \<longleftrightarrow>
     (e = Expected7Fields \<and> length (Split jobName (CHR ''-'')) \<noteq> 7)
     \<or> (e = SliceBoundsOutOfRange \<and> length (Split jobName (CHR ''-'')) = 7 \<and> length (Split jobName (CHR ''-'') ! 5) < 3)"
  by (auto simp: newE2ETest_def Let_def split: if_splits)

lemma newE2ENodeTest_Inr:
  "newE2ENodeTest jobName job config = Inr ent \<Longrightarrow>
     E2ENodeTest.Job ent = job \<and> E2ENodeTest.fields' ent = Split jobName (CHR ''-'') \<and> E2ENodeTest.JobName ent = jobName
     \<and> length (Split jobName (CHR ''-'')) = 6 \<and> 3 \<le> length (Split jobName (CHR ''-'') ! 4)
     \<and> E2ENodeTest.TestSuite ent = lookup zeroTestSuite (TestSuites config) (Split jobName (CHR ''-'') ! 5)"
  by (auto simp: newE2ENodeTest_def Let_def split: if_splits)

lemma newE2ENodeTest_Inl:
  "newE2ENodeTest jobName job config = Inl e \<longleftrightarrow>
     (e = Expected6Fields \<and> length (Split jobName (CHR ''-'')) \<noteq> 6)
     \<or> (e = SliceBoundsOutOfRange \<and> length (Split jobName (CHR ''-'')) = 6 \<and> length (Split jobName (CHR ''-'') ! 4) < 3)"
  by (auto simp: newE2ENodeTest_def Let_def split: if_splits)

lemma forEachJob_e2e:
  assumes "3 \<le> length (Split jobName (CHR ''-''))" and "Split jobName (CHR ''-'') ! 2 = ''e2e''"
  shows "forEachJob outputDir jobName job config =
     (case newE2ETest outputDir jobName job config of
        Inl e \<Rightarrow> Inl e
      | Inr et \<Rightarrow>
          (case E2ETest_generate et of
             Inl e \<Rightarrow> Inl e
           | Inr (jobConfig, prowConfig, testgridConfig) \<Rightarrow>
               Inr (updContainer0 (\<lambda>c. c\<lparr>Container.Command :=
                        [''runner.sh'', ''/workspace/scenarios/'' @ Job.Scenario jobConfig @ ''.py'']\<rparr>)
                      (updContainer0 (\<lambda>c. c\<lparr>Container.Args := Container.Args c @
                          applyJobOverrides (Job.Args jobConfig) (getArgs jobName (Job.Args job))\<rparr>) prowConfig),
                    testgridConfig)))"
  using assms by (auto simp: forEachJob_def Let_def split: sum.splits)

lemma forEachJob_e2enode:
  assumes "3 \<le> length (Split jobName (CHR ''-''))" and "Split jobName (CHR ''-'') ! 2 = ''e2enode''"
  shows "forEachJob outputDir jobName job config =
     (case newE2ENodeTest jobName job config of
        Inl e \<Rightarrow> Inl e
      | Inr ent \<Rightarrow>
          (case E2ENodeTest_generate ent of
             Inl e \<Rightarrow> Inl e
           | Inr (jobConfig, prowConfig) \<Rightarrow>
               Inr (updContainer0 (\<lambda>c. c\<lparr>Container.Command :=
                        [''runner.sh'', ''/workspace/scenarios/'' @ Job.Scenario jobConfig @ ''.py'']\<rparr>)
                      (updContainer0 (\<lambda>c. c\<lparr>Container.Args := Container.Args c @
                          applyJobOverrides (Job.Args jobConfig) (getArgs jobName (Job.Args job))\<rparr>) prowConfig),
                    zeroTestGroup)))"
  using assms by (auto simp: forEachJob_def Let_def split: sum.splits)

lemma forEachJob_other:
  assumes "length (Split jobName (CHR ''-'')) < 3 \<or>
           (Split jobName (CHR ''-'') ! 2 \<noteq> ''e2e'' \<and> Split jobName (CHR ''-'') ! 2 \<noteq> ''e2enode'')"
  shows "forEachJob outputDir jobName job config =
           (if length (Split jobName (CHR ''-'')) < 3 then Inl ExpectedAtLeast3Fields else Inl UnexpectedJobType)"
  using assms by (auto simp: forEachJob_def Let_def)


lemma forEachJob_e2e_Inl:
  assumes len: "length (Split jobName (CHR ''-'')) = 7" and kind: "Split jobName (CHR ''-'') ! 2 = ''e2e''"
    and err: "forEachJob outputDir jobName job config = Inl e"
  shows "e = SliceBoundsOutOfRange \<or> e = TimeoutParseError
         \<or> (e = NoIntervalOrCron \<and> Job.Interval job = [] \<and> Job.Cron job = [])"
proof (cases "newE2ETest outputDir jobName job config")
  case (Inl e')
  with err len kind have "e' = e"
    by (simp add: forEachJob_e2e)
  with Inl len show ?thesis
    by (auto simp: newE2ETest_Inl)
next
  case (Inr et)
  note et = newE2ETest_Inr [OF Inr]
  from err len kind Inr have "E2ETest_generate et = Inl e"
    by (auto simp: forEachJob_e2e split: sum.splits)
  from E2ETest_generate_Inl [OF this] et len
  have "E2ETest_getProwConfig et (E2ETest.TestSuite et) = Inl e"
    by auto
  from E2ETest_getProwConfig_Inl [OF this] et show ?thesis
    by auto
qed

lemma forEachJob_e2enode_Inl:
  assumes len: "length (Split jobName (CHR ''-'')) = 6" and kind: "Split jobName (CHR ''-'') ! 2 = ''e2enode''"
    and err: "forEachJob outputDir jobName job config = Inl e"
  shows "e = SliceBoundsOutOfRange \<or> e = TimeoutParseError
         \<or> (e = NoIntervalOrCron \<and> Job.Interval job = [] \<and> Job.Cron job = [])"
proof (cases "newE2ENodeTest jobName job config")
  case (Inl e')
  with err len kind have "e' = e"
    by (simp add: forEachJob_e2enode)
  with Inl len show ?thesis
    by (auto simp: newE2ENodeTest_Inl)
next
  case (Inr ent)
  note ent = newE2ENodeTest_Inr [OF Inr]
  from err len kind Inr have "E2ENodeTest_generate ent = Inl e"
    by (auto simp: forEachJob_e2enode split: sum.splits)
  from E2ENodeTest_generate_Inl [OF this] ent len
  have "E2ENodeTest_getProwConfig ent (E2ENodeTest.TestSuite ent) (E2ENodeTest.K8SVersion ent) = Inl e"
    by auto
  from E2ENodeTest_getProwConfig_Inl [OF this] ent show ?thesis
    by auto
qed

lemma forEachJob_name_error_iff:
  "(\<exists>e. forEachJob outputDir jobName job config = Inl e \<and> jobNameError e) \<longleftrightarrow> \<not> conformingJobName jobName"
proof -
  let ?fs = "Split jobName (CHR ''-'')"
  consider (short) "length ?fs < 3"
    | (e2e) "3 \<le> length ?fs" "?fs ! 2 = ''e2e''"
    | (e2enode) "3 \<le> length ?fs" "?fs ! 2 = ''e2enode''"
    | (other) "3 \<le> length ?fs" "?fs ! 2 \<noteq> ''e2e''" "?fs ! 2 \<noteq> ''e2enode''"
    by fastforce
  then show ?thesis
  proof cases
    case short
    then show ?thesis
      by (auto simp: forEachJob_other conformingJobName_def Let_def)
  next
    case other
    then show ?thesis
      by (auto simp: forEachJob_other conformingJobName_def Let_def)
  next
    case e2e
    show ?thesis
    proof (cases "length ?fs = 7")
      case True
      with e2e have "conformingJobName jobName"
        by (simp add: conformingJobName_def Let_def)
      moreover have "\<not> jobNameError e" if "forEachJob outputDir jobName job config = Inl e" for e
        using forEachJob_e2e_Inl [OF True e2e(2) that] by auto
      ultimately show ?thesis
        by blast
    next
      case False
      with e2e have "\<not> conformingJobName jobName"
        by (simp add: conformingJobName_def Let_def)
      moreover from False have "newE2ETest outputDir jobName job config = Inl Expected7Fields"
        by (simp add: newE2ETest_Inl)
      with e2e have "forEachJob outputDir jobName job config = Inl Expected7Fields"
        by (simp add: forEachJob_e2e)
      ultimately show ?thesis
        by auto
    qed
  next
    case e2enode
    show ?thesis
    proof (cases "length ?fs = 6")
      case True
      with e2enode have "conformingJobName jobName"
        by (simp add: conformingJobName_def Let_def)
      moreover have "\<not> jobNameError e" if "forEachJob outputDir jobName job config = Inl e" for e
        using forEachJob_e2enode_Inl [OF True e2enode(2) that] by auto
      ultimately show ?thesis
        by blast
    next
      case False
      with e2enode have "\<not> conformingJobName jobName"
        by (simp add: conformingJobName_def Let_def)
      moreover from False have "newE2ENodeTest jobName job config = Inl Expected6Fields"
        by (simp add: newE2ENodeTest_Inl)
      with e2enode have "forEachJob outputDir jobName job config = Inl Expected6Fields"
        by (simp add: forEachJob_e2enode)
      ultimately show ?thesis
        by auto
    qed
  qed
qed

lemma compileJobs_abort:
  assumes "jobName \<in> set jobNames"
    and "forEachJob outputDir jobName (lookup zeroJob (map_of (Jobs config)) jobName) config = Inl e"
  shows "\<exists>e'. compileJobs outputDir config jobNames outputConfig testgridConfig = Inl e'"
  using assms(1)
proof (induction jobNames arbitrary: outputConfig testgridConfig)
  case Nil
  then show ?case by simp
next
  case (Cons name names)
  show ?case
  proof (cases "forEachJob outputDir name (lookup zeroJob (map_of (Jobs config)) name) config")
    case (Inl e')
    then show ?thesis by simp
  next
    case (Inr r)
    with assms(2) have "name \<noteq> jobName"
      by auto
    with Cons.prems have "jobName \<in> set names"
      by simp
    from Cons.IH [OF this] Inr show ?thesis
      by (cases r) (simp add: Let_def)
  qed
qed

lemma forEachJob_no_schedule:
  assumes "Job.Interval job = []" and "Job.Cron job = []"
  shows "\<exists>e. forEachJob outputDir jobName job config = Inl e"
proof (rule ccontr)
  assume "\<not> ?thesis"
  then obtain prow testgrid where ok: "forEachJob outputDir jobName job config = Inr (prow, testgrid)"
    by (cases "forEachJob outputDir jobName job config") auto
  let ?fs = "Split jobName (CHR ''-'')"
  consider (e2e) "3 \<le> length ?fs" "?fs ! 2 = ''e2e''"
    | (e2enode) "3 \<le> length ?fs" "?fs ! 2 = ''e2enode''"
    | (other) "length ?fs < 3 \<or> (?fs ! 2 \<noteq> ''e2e'' \<and> ?fs ! 2 \<noteq> ''e2enode'')"
    by fastforce
  then show False
  proof cases
    case e2e
    with ok obtain et j p t where et: "newE2ETest outputDir jobName job config = Inr et"
      and g: "E2ETest_generate et = Inr (j, p, t)"
      by (auto simp: forEachJob_e2e split: sum.splits)
    from newE2ETest_Inr [OF et] assms
    have "E2ETest_getProwConfig et (E2ETest.TestSuite et) = Inl NoIntervalOrCron"
      by (simp add: E2ETest_getProwConfig_no_schedule)
    with E2ETest_generate_Inr [OF g] show False
      by auto
  next
    case e2enode
    with ok obtain ent j p where ent: "newE2ENodeTest jobName job config = Inr ent"
      and g: "E2ENodeTest_generate ent = Inr (j, p)"
      by (auto simp: forEachJob_e2enode split: sum.splits)
    from newE2ENodeTest_Inr [OF ent] assms
    have "E2ENodeTest_getProwConfig ent (E2ENodeTest.TestSuite ent) (E2ENodeTest.K8SVersion ent) = Inl NoIntervalOrCron"
      by (simp add: E2ENodeTest_getProwConfig_no_schedule)
    with E2ENodeTest_generate_Inr [OF g] show False
      by auto
  next
    case other
    with ok show False
      by (simp add: forEachJob_other split: if_splits)
  qed
qed

lemma forEachJob_Inr_schedule:
  assumes "forEachJob outputDir jobName job config = Inr (prow, testgrid)"
  shows "(Periodic.Interval prow = []) \<noteq> (Periodic.Cron prow = [])"
proof -
  let ?fs = "Split jobName (CHR ''-'')"
  consider (e2e) "3 \<le> length ?fs" "?fs ! 2 = ''e2e''"
    | (e2enode) "3 \<le> length ?fs" "?fs ! 2 = ''e2enode''"
    | (other) "length ?fs < 3 \<or> (?fs ! 2 \<noteq> ''e2e'' \<and> ?fs ! 2 \<noteq> ''e2enode'')"
    by fastforce
  then show ?thesis
  proof cases
    case e2e
    with assms obtain et j p t where g: "E2ETest_generate et = Inr (j, p, t)"
      and sched: "Periodic.Interval prow = Periodic.Interval p" "Periodic.Cron prow = Periodic.Cron p"
      by (auto simp: forEachJob_e2e split: sum.splits)
    from E2ETest_generate_Inr [OF g] obtain p0
      where "E2ETest_getProwConfig et (E2ETest.TestSuite et) = Inr p0"
        and "Periodic.Interval p = Periodic.Interval p0" "Periodic.Cron p = Periodic.Cron p0"
      by auto
    with E2ETest_getProwConfig_Inr [of et "E2ETest.TestSuite et" p0] sched show ?thesis
      by simp
  next
    case e2enode
    with assms obtain ent j p where g: "E2ENodeTest_generate ent = Inr (j, p)"
      and sched: "Periodic.Interval prow = Periodic.Interval p" "Periodic.Cron prow = Periodic.Cron p"
      by (auto simp: forEachJob_e2enode split: sum.splits)
    from E2ENodeTest_generate_Inr [OF g] obtain p0
      where "E2ENodeTest_getProwConfig ent (E2ENodeTest.TestSuite ent) (E2ENodeTest.K8SVersion ent) = Inr p0"
        and "Periodic.Interval p = Periodic.Interval p0" "Periodic.Cron p = Periodic.Cron p0"
      by auto
    with E2ENodeTest_getProwConfig_Inr [of ent "E2ENodeTest.TestSuite ent" "E2ENodeTest.K8SVersion ent" p0] sched
    show ?thesis
      by simp
  next
    case other
    with assms show ?thesis
      by (simp add: forEachJob_other split: if_splits)
  qed
qed

lemma forEachJob_schedule_error:
  assumes "forEachJob outputDir jobName job config = Inl NoIntervalOrCron"
  shows "Job.Interval job = [] \<and> Job.Cron job = []"
proof -
  let ?fs = "Split jobName (CHR ''-'')"
  consider (e2e) "3 \<le> length ?fs" "?fs ! 2 = ''e2e''"
    | (e2enode) "3 \<le> length ?fs" "?fs ! 2 = ''e2enode''"
    | (other) "length ?fs < 3 \<or> (?fs ! 2 \<noteq> ''e2e'' \<and> ?fs ! 2 \<noteq> ''e2enode'')"
    by fastforce
  then show ?thesis
  proof cases
    case e2e
    show ?thesis
    proof (cases "length ?fs = 7")
      case True
      from forEachJob_e2e_Inl [OF True e2e(2) assms] show ?thesis
        by simp
    next
      case False
      then have "newE2ETest outputDir jobName job config = Inl Expected7Fields"
        by (simp add: newE2ETest_Inl)
      with e2e assms show ?thesis
        by (simp add: forEachJob_e2e)
    qed
  next
    case e2enode
    show ?thesis
    proof (cases "length ?fs = 6")
      case True
      from forEachJob_e2enode_Inl [OF True e2enode(2) assms] show ?thesis
        by simp
    next
      case False
      then have "newE2ENodeTest jobName job config = Inl Expected6Fields"
        by (simp add: newE2ENodeTest_Inl)
      with e2enode assms show ?thesis
        by (simp add: forEachJob_e2enode)
    qed
  next
    case other
    with assms show ?thesis
      by (simp add: forEachJob_other split: if_splits)
  qed
qed

lemma forEachJob_no_schedule_error:
  assumes none: "Job.Interval job = []" "Job.Cron job = []"
    and err: "forEachJob outputDir jobName job config = Inl e"
  shows "e = NoIntervalOrCron \<or> e = SliceBoundsOutOfRange \<or> jobNameError e"
proof -
  let ?fs = "Split jobName (CHR ''-'')"
  consider (e2e) "3 \<le> length ?fs" "?fs ! 2 = ''e2e''"
    | (e2enode) "3 \<le> length ?fs" "?fs ! 2 = ''e2enode''"
    | (other) "length ?fs < 3 \<or> (?fs ! 2 \<noteq> ''e2e'' \<and> ?fs ! 2 \<noteq> ''e2enode'')"
    by fastforce
  then show ?thesis
  proof cases
    case e2e
    show ?thesis
    proof (cases "newE2ETest outputDir jobName job config")
      case (Inl e')
      with err e2e have "e' = e"
        by (simp add: forEachJob_e2e)
      with Inl show ?thesis
        by (auto simp: newE2ETest_Inl)
    next
      case (Inr et)
      from err e2e Inr have g: "E2ETest_generate et = Inl e"
        by (auto simp: forEachJob_e2e split: sum.splits)
      from newE2ETest_Inr [OF Inr] none
      have "E2ETest_getProwConfig et (E2ETest.TestSuite et) = Inl NoIntervalOrCron"
        by (simp add: E2ETest_getProwConfig_no_schedule)
      with E2ETest_generate_Inl [OF g] show ?thesis
        by auto
    qed
  next
    case e2enode
    show ?thesis
    proof (cases "newE2ENodeTest jobName job config")
      case (Inl e')
      with err e2enode have "e' = e"
        by (simp add: forEachJob_e2enode)
      with Inl show ?thesis
        by (auto simp: newE2ENodeTest_Inl)
    next
      case (Inr ent)
      from err e2enode Inr have g: "E2ENodeTest_generate ent = Inl e"
        by (auto simp: forEachJob_e2enode split: sum.splits)
      from newE2ENodeTest_Inr [OF Inr] none
      have "E2ENodeTest_getProwConfig ent (E2ENodeTest.TestSuite ent) (E2ENodeTest.K8SVersion ent)
              = Inl NoIntervalOrCron"
        by (simp add: E2ENodeTest_getProwConfig_no_schedule)
      with E2ENodeTest_generate_Inl [OF g] show ?thesis
        by auto
    qed
  next
    case other
    with err show ?thesis
      by (auto simp: forEachJob_other split: if_splits)
  qed
qed

lemma main_abort:
  assumes "map_of (Jobs config) jobName = Some job"
    and "forEachJob outputDir jobName job config = Inl e"
  shows "\<exists>e'. main outputDir config = Inl e'"
proof -
  from assms(1) have "jobName \<in> set (sort (remdups (map fst (Jobs config))))"
    by (auto dest: map_of_SomeD intro: rev_image_eqI)
  moreover from assms have "forEachJob outputDir jobName (lookup zeroJob (map_of (Jobs config)) jobName) config = Inl e"
    by (simp add: lookup_def)
  ultimately show ?thesis
    unfolding main_def Let_def by (rule compileJobs_abort)
qed



lemma E2ETest_getProwConfig_setTimeout:
  "E2ETest_getProwConfig et testSuite = Inr p \<Longrightarrow> \<exists>q. setTimeout testSuite q = Inr p"
  by (auto simp: E2ETest_getProwConfig_def Let_def split: sum.splits)

lemma E2ENodeTest_getProwConfig_setTimeout:
  "E2ENodeTest_getProwConfig ent testSuite k8sVersion = Inr p \<Longrightarrow>
     \<exists>q q'. setTimeout testSuite q = Inr q' \<and> Periodic.DecorationConfig p = Periodic.DecorationConfig q'"
  by (auto simp: E2ENodeTest_getProwConfig_def Let_def split: sum.splits if_splits) blast+

lemma newE2ETest_axes:
  "newE2ETest outputDir jobName job config = Inr et \<Longrightarrow>
     E2ETest.CloudProvider et = lookup zeroCloudProvider (CloudProviders config) (Split jobName (CHR ''-'') ! 3)
     \<and> E2ETest.Image et = lookup zeroImage (Images config) (Split jobName (CHR ''-'') ! 4)
     \<and> E2ETest.K8SVersion et = lookup zeroK8SVersion (K8SVersions config) (drop 3 (Split jobName (CHR ''-'') ! 5))
     \<and> E2ETest.Common et = ConfigFile.Common config"
  by (auto simp: newE2ETest_def Let_def split: if_splits)

lemma forEachJob_Inr_cases:
  assumes "forEachJob outputDir jobName job config = Inr (prow, testgrid)"
  shows "(\<exists>et jobConfig p. Split jobName (CHR ''-'') ! 2 = ''e2e''
            \<and> newE2ETest outputDir jobName job config = Inr et
            \<and> E2ETest_generate et = Inr (jobConfig, p, testgrid)
            \<and> Periodic.DecorationConfig prow = Periodic.DecorationConfig p
            \<and> Periodic.Annotations prow = Periodic.Annotations p)
         \<or> (\<exists>ent jobConfig p. Split jobName (CHR ''-'') ! 2 = ''e2enode''
            \<and> newE2ENodeTest jobName job config = Inr ent
            \<and> E2ENodeTest_generate ent = Inr (jobConfig, p)
            \<and> Periodic.DecorationConfig prow = Periodic.DecorationConfig p
            \<and> Periodic.Annotations prow = Periodic.Annotations p
            \<and> testgrid = zeroTestGroup)"
proof -
  let ?fs = "Split jobName (CHR ''-'')"
  consider (e2e) "3 \<le> length ?fs" "?fs ! 2 = ''e2e''"
    | (e2enode) "3 \<le> length ?fs" "?fs ! 2 = ''e2enode''"
    | (other) "length ?fs < 3 \<or> (?fs ! 2 \<noteq> ''e2e'' \<and> ?fs ! 2 \<noteq> ''e2enode'')"
    by fastforce
  then show ?thesis
  proof cases
    case e2e
    with assms show ?thesis
      by (auto simp: forEachJob_e2e split: sum.splits)
  next
    case e2enode
    with assms show ?thesis
      by (auto simp: forEachJob_e2enode split: sum.splits)
  next
    case other
    with assms show ?thesis
      by (simp add: forEachJob_other split: if_splits)
  qed
qed

lemma forEachJob_setTimeout:
  assumes "forEachJob outputDir jobName job config = Inr (prow, testgrid)"
  shows "\<exists>q q'. setTimeout (lookup zeroTestSuite (TestSuites config) (last (Split jobName (CHR ''-'')))) q = Inr q'
           \<and> Periodic.DecorationConfig prow = Periodic.DecorationConfig q'"
proof -
  let ?fs = "Split jobName (CHR ''-'')"
  from forEachJob_Inr_cases [OF assms] show ?thesis
  proof (elim disjE exE conjE)
    fix et jobConfig p
    assume et: "newE2ETest outputDir jobName job config = Inr et"
      and g: "E2ETest_generate et = Inr (jobConfig, p, testgrid)"
      and dc: "Periodic.DecorationConfig prow = Periodic.DecorationConfig p"
    from newE2ETest_Inr [OF et] have len: "length ?fs = 7"
      and ts: "E2ETest.TestSuite et = lookup zeroTestSuite (TestSuites config) (?fs ! 6)"
      by simp_all
    from len have "last ?fs = ?fs ! 6"
      by (simp add: last_conv_nth Split_not_Nil)
    with ts have ts': "E2ETest.TestSuite et = lookup zeroTestSuite (TestSuites config) (last ?fs)"
      by simp
    from E2ETest_generate_Inr [OF g] obtain p0
      where "E2ETest_getProwConfig et (E2ETest.TestSuite et) = Inr p0"
        and "Periodic.DecorationConfig p = Periodic.DecorationConfig p0"
      by auto
    with E2ETest_getProwConfig_setTimeout [of et "E2ETest.TestSuite et" p0] dc ts' show ?thesis
      by auto
  next
    fix ent jobConfig p
    assume ent: "newE2ENodeTest jobName job config = Inr ent"
      and g: "E2ENodeTest_generate ent = Inr (jobConfig, p)"
      and dc: "Periodic.DecorationConfig prow = Periodic.DecorationConfig p"
    from newE2ENodeTest_Inr [OF ent] have len: "length ?fs = 6"
      and ts: "E2ENodeTest.TestSuite ent = lookup zeroTestSuite (TestSuites config) (?fs ! 5)"
      by simp_all
    from len have "last ?fs = ?fs ! 5"
      by (simp add: last_conv_nth Split_not_Nil)
    with ts have ts': "E2ENodeTest.TestSuite ent = lookup zeroTestSuite (TestSuites config) (last ?fs)"
      by simp
    from E2ENodeTest_generate_Inr [OF g] obtain p0
      where "E2ENodeTest_getProwConfig ent (E2ENodeTest.TestSuite ent) (E2ENodeTest.K8SVersion ent) = Inr p0"
        and "Periodic.DecorationConfig p = Periodic.DecorationConfig p0"
      by auto
    with E2ENodeTest_getProwConfig_setTimeout [of ent "E2ENodeTest.TestSuite ent" "E2ENodeTest.K8SVersion ent" p0]
      dc ts' show ?thesis
      by auto
  qed
qed

lemma E2ETest_generate_dashboards:
  assumes "E2ETest_generate et = Inr (jobConfig, prowConfig, tgConfig)"
  shows "Periodic.Annotations prowConfig ''testgrid-dashboards'' =
           Some (Join (E2ETest_InitializeDashBoardsWithReleaseBlockingInfo et (K8SVersion.Version (E2ETest.K8SVersion et))
                       @ (if Image.TestgridPrefix (E2ETest.Image et) \<noteq> []
                          then [Image.TestgridPrefix (E2ETest.Image et) @ ''-'' @ E2ETest.fields' et ! 4
                                @ ''-'' @ E2ETest.fields' et ! 5]
                          else [])) '', '')"
  using assms
  by (auto simp: E2ETest_generate_def Let_def split: if_splits sum.splits)

lemma InitializeDashBoards_primary:
  "E2ETest_InitializeDashBoardsWithReleaseBlockingInfo et version =
     [primaryDashboard (Job.ReleaseBlocking (E2ETest.Job et)) (Job.ReleaseInforming (E2ETest.Job et)) version]"
  by (simp add: E2ETest_InitializeDashBoardsWithReleaseBlockingInfo_def primaryDashboard_def)

lemma forEachJob_dashboards:
  assumes ok: "forEachJob outputDir jobName job config = Inr (prow, testgrid)"
    and kind: "Split jobName (CHR ''-'') ! 2 = ''e2e''"
    and fs: "fs = Split jobName (CHR ''-'')"
    and img: "img = lookup zeroImage (Images config) (fs ! 4)"
    and version: "version = K8SVersion.Version (lookup zeroK8SVersion (K8SVersions config) (drop 3 (fs ! 5)))"
  shows "Periodic.Annotations prow ''testgrid-dashboards'' =
           Some (Join (primaryDashboard (Job.ReleaseBlocking job) (Job.ReleaseInforming job) version
                       # (if Image.TestgridPrefix img \<noteq> []
                          then [Image.TestgridPrefix img @ ''-'' @ fs ! 4 @ ''-'' @ fs ! 5]
                          else [])) '', '')"
proof -
  from forEachJob_Inr_cases [OF ok] kind obtain et jobConfig p
    where et: "newE2ETest outputDir jobName job config = Inr et"
      and g: "E2ETest_generate et = Inr (jobConfig, p, testgrid)"
      and ann: "Periodic.Annotations prow = Periodic.Annotations p"
    by auto
  from E2ETest_generate_dashboards [OF g] ann newE2ETest_Inr [OF et] newE2ETest_axes [OF et]
  show ?thesis
    unfolding fs img version by (simp add: InitializeDashBoards_primary)
qed

section \<open>Facts about the arguments an e2enode job emits\<close>

lemma E2ENodeTest_getProwConfig_args:
  "E2ENodeTest_getProwConfig ent testSuite k8sVersion = Inr p \<Longrightarrow>
     map Container.Args (Containers (Periodic.Spec p)) = [NodeK8SVersion.Args k8sVersion @ [''--root=/go/src'']]"
  by (auto simp: E2ENodeTest_getProwConfig_def Let_def newPeriodic_def setCluster_def setResources_def
      setSchedule_def setTimeout_def updContainer0_def split: sum.splits if_splits)

lemma E2ENodeTest_generate_args:
  assumes "E2ENodeTest_generate ent = Inr (jobConfig, prowConfig)"
  shows "Job.Scenario jobConfig = ''kubernetes_e2e''"
    and "Job.Args jobConfig = coalesceNodeArgs
           (getArgs (E2ENodeTest.JobName ent) (Common.Args (E2ENodeTest.Common ent))
            @ getArgs (E2ENodeTest.JobName ent) (Image.Args (E2ENodeTest.Image ent))
            @ getArgs (E2ENodeTest.JobName ent) (TestSuite.Args (E2ENodeTest.TestSuite ent)))"
    and "map Container.Args (Containers (Periodic.Spec prowConfig)) =
           [NodeK8SVersion.Args (E2ENodeTest.K8SVersion ent) @ [''--root=/go/src'']]"
  using assms
  by (auto simp: E2ENodeTest_generate_def E2ENodeTest_getJobDefinition_def Let_def
      split: if_splits sum.splits dest: E2ENodeTest_getProwConfig_args)

lemma updContainer0_args:
  assumes "map Container.Args (Containers (Periodic.Spec p)) = [xs]"
  shows "map Container.Args (Containers (Periodic.Spec
           (updContainer0 (\<lambda>c. c\<lparr>Container.Command := cmd\<rparr>)
              (updContainer0 (\<lambda>c. c\<lparr>Container.Args := Container.Args c @ ys\<rparr>) p)))) = [xs @ ys]"
proof -
  from assms obtain c where "Containers (Periodic.Spec p) = [c]" and "Container.Args c = xs"
    by (cases "Containers (Periodic.Spec p)") auto
  then show ?thesis
    by (simp add: updContainer0_def)
qed

lemma applyJobOverrides_Nil: "applyJobOverrides args [] = args"
  by (simp add: applyJobOverrides_def)

lemma forEachJob_e2enode_args:
  assumes ok: "forEachJob outputDir jobName job config = Inr (prow, testgrid)"
    and kind: "Split jobName (CHR ''-'') ! 2 = ''e2enode''"
    and ent: "newE2ENodeTest jobName job config = Inr ent"
  shows "map Container.Args (Containers (Periodic.Spec prow)) =
           [NodeK8SVersion.Args (E2ENodeTest.K8SVersion ent) @ [''--root=/go/src'']
            @ applyJobOverrides
                (coalesceNodeArgs
                   (getArgs jobName (Common.Args (E2ENodeTest.Common ent))
                    @ getArgs jobName (Image.Args (E2ENodeTest.Image ent))
                    @ getArgs jobName (TestSuite.Args (E2ENodeTest.TestSuite ent))))
                (getArgs jobName (Job.Args job))]"
proof -
  from newE2ENodeTest_Inr [OF ent] have len: "3 \<le> length (Split jobName (CHR ''-''))"
    and name: "E2ENodeTest.JobName ent = jobName"
    by simp_all
  from ok ent obtain jobConfig p where g: "E2ENodeTest_generate ent = Inr (jobConfig, p)"
    and prow: "prow = updContainer0 (\<lambda>c. c\<lparr>Container.Command :=
                        [''runner.sh'', ''/workspace/scenarios/'' @ Job.Scenario jobConfig @ ''.py'']\<rparr>)
                      (updContainer0 (\<lambda>c. c\<lparr>Container.Args := Container.Args c @
                          applyJobOverrides (Job.Args jobConfig) (getArgs jobName (Job.Args job))\<rparr>) p)"
    by (auto simp: forEachJob_e2enode [OF len kind] split: sum.splits)
  from E2ENodeTest_generate_args(2,3) [OF g] name show ?thesis
    unfolding prow by (simp add: updContainer0_args)
qed

section \<open>Facts about the test-group document and the default timeout\<close>

text \<open>
  Whatever the jobs are, only a zero-valued test group passes the guard of \<open>main\<close>, and
  the test group of an e2e job never does; and a periodic emitted for a test suite
  without a \<open>--timeout=\<close> entry has the timeout \<open>20m\<close>.
\<close>

lemma TestGroup_isEmpty_zero: "\<not> TestGroup_isEmpty tg \<longleftrightarrow> tg = zeroTestGroup"
  by (cases tg) (auto simp: TestGroup_isEmpty_def zeroTestGroup_def)

lemma E2ETest_generate_test_group:
  "E2ETest_generate et = Inr (jobConfig, prowConfig, tgConfig) \<Longrightarrow> TestGroup_isEmpty tgConfig"
  by (auto simp: E2ETest_generate_def E2ETest_getTestGridConfig_def TestGroup_isEmpty_def Let_def
      split: if_splits sum.splits)

lemma compileJobs_test_groups:
  assumes "compileJobs outputDir config jobNames outputConfig testgridConfig = Inr (outputConfig', testgridConfig')"
    and "\<forall>tg\<in>set (TestGroups testgridConfig). tg = zeroTestGroup"
  shows "\<forall>tg\<in>set (TestGroups testgridConfig'). tg = zeroTestGroup"
  using assms
proof (induction jobNames arbitrary: outputConfig testgridConfig)
  case Nil
  then show ?case by simp
next
  case (Cons jobName jobNames)
  from Cons.prems(1) obtain prow testgrid
    where step: "forEachJob outputDir jobName (lookup zeroJob (map_of (Jobs config)) jobName) config
        = Inr (prow, testgrid)"
    by (auto split: sum.splits)
  let ?tgc = "if \<not> TestGroup_isEmpty testgrid
      then testgridConfig\<lparr>TestGroups := TestGroups testgridConfig @ [testgrid]\<rparr> else testgridConfig"
  from Cons.prems(1) step
  have rest: "compileJobs outputDir config jobNames (outputConfig\<lparr>Periodics := Periodics outputConfig @ [prow]\<rparr>) ?tgc
      = Inr (outputConfig', testgridConfig')"
    by (simp add: Let_def)
  have "\<forall>tg\<in>set (TestGroups ?tgc). tg = zeroTestGroup"
    using Cons.prems(2) by (auto simp: TestGroup_isEmpty_zero)
  with Cons.IH [OF rest] show ?case
    by blast
qed

lemma main_test_groups_zero:
  assumes "main outputDir config = Inr (outputConfig, testgridConfig)"
  shows "\<forall>tg\<in>set (TestGroups testgridConfig). tg = zeroTestGroup"
  using assms compileJobs_test_groups [of outputDir config "sort (remdups (map fst (Jobs config)))"
      "\<lparr>Periodics = []\<rparr>" "\<lparr>TestGroups = []\<rparr>" outputConfig testgridConfig]
  by (simp add: main_def Let_def)

lemma forEachJob_default_timeout:
  assumes "forEachJob outputDir jobName job config = Inr (prow, testgrid)"
    and "find (prefix ''--timeout='')
           (TestSuite.Args (lookup zeroTestSuite (TestSuites config) (last (Split jobName (CHR ''-''))))) = None"
  shows "Timeout (Periodic.DecorationConfig prow) = ''20m''"
proof -
  from forEachJob_setTimeout [OF assms(1)] obtain q q'
    where "setTimeout (lookup zeroTestSuite (TestSuites config) (last (Split jobName (CHR ''-'')))) q = Inr q'"
      and dc: "Periodic.DecorationConfig prow = Periodic.DecorationConfig q'"
    by auto
  then have "q' = q\<lparr>Periodic.DecorationConfig := \<lparr>Timeout = ''20m''\<rparr>\<rparr>"
    by (simp add: setTimeout_default [OF assms(2)])
  with dc show ?thesis
    by simp
qed

section \<open>Evaluating the sample inputs\<close>

lemmas sample_defs = zeroJob_def zeroTestSuite_def zeroResources_def zeroComputeResources_def
  zeroImage_def zeroCloudProvider_def zeroK8SVersion_def zeroNodeK8SVersion_def zeroTestGroup_def
  exampleJob_def exampleConfig_def exampleE2ETest_def exampleE2ENodeTest_def lookup_def

lemmas periodic_defs = newPeriodic_def setCluster_def setResources_def setSchedule_def setTimeout_def
  Resources_isEmpty_def ComputeResources_isEmpty_def updContainer0_def
  E2ETest_getProwConfig_def E2ENodeTest_getProwConfig_def
  Atoi_def isDigit_def parseDigits_def digitVal_def wrap64_def Itoa_def natToString.simps Let_def

lemmas generate_defs = E2ETest_generate_def E2ETest_getJobDefinition_def E2ETest_getTestGridConfig_def
  E2ETest_InitializeDashBoardsWithReleaseBlockingInfo_def
  E2ENodeTest_generate_def E2ENodeTest_getJobDefinition_def
  coalesceNodeArgs_def SplitN2_def getArgs_def substitute_def
  TrimSpace_def whiteSpace_def trimLeft.simps

lemmas job_defs = newE2ETest_def newE2ENodeTest_def forEachJob_def applyJobOverrides_def

section \<open>The claims\<close>

text \<open>
  C1. The claim: every e2e job's test group is in the test-group document, and no e2enode
  job contributes one. The code does the reverse. \<open>TestGroup.isEmpty\<close> is true when a
  field is set, so the guard \<open>!testgrid.isEmpty()\<close> of \<open>main\<close> drops the test group of an
  e2e job and keeps the zero test group that \<open>forEachJob\<close> returns for an e2enode job
  (\<open>main_test_groups_zero\<close> and \<open>E2ETest_generate_test_group\<close> above, for every input).
  On the sample configuration with one e2e job the document has no test group; with
  one e2enode job it has one, the zero value.
\<close>

theorem main_test_groups_reversed:
  "map_sum id (TestGroups \<circ> snd)
     (main ''out'' (exampleConfig [(''ci-kubernetes-e2e-gce-cos-k8sbeta-default'', exampleJob)] [])) = Inr []
   \<and> map_sum id (TestGroups \<circ> snd)
     (main ''out'' (exampleConfig [(''ci-kubernetes-e2enode-cos-k8sbeta-default'', exampleJob)] []))
       = Inr [zeroTestGroup]"
  by (simp add: main_def TestGroup_isEmpty_def sample_defs periodic_defs generate_defs job_defs)

text \<open>
  C2. The claim: with no \<open>--timeout=\<close> entry in the test suite's arguments the decoration
  timeout stays at the default \<open>180m\<close>. The code scans, finds nothing, keeps \<open>timeout\<close> at
  its zero value and then overwrites the default unconditionally with \<open>timeout+20\<close>: the
  emitted timeout is \<open>20m\<close>, for both kinds of job (\<open>forEachJob_default_timeout\<close> above, for
  every such job). No error is raised. On the sample configuration, with a test suite
  that has no arguments:
\<close>

theorem default_timeout_overwritten:
  "map_sum id (Timeout \<circ> Periodic.DecorationConfig \<circ> fst)
     (forEachJob ''out'' ''ci-kubernetes-e2e-gce-cos-k8sbeta-default'' exampleJob (exampleConfig [] []))
       = Inr ''20m''
   \<and> map_sum id (Timeout \<circ> Periodic.DecorationConfig \<circ> fst)
     (forEachJob ''out'' ''ci-kubernetes-e2enode-cos-k8sbeta-default'' exampleJob (exampleConfig [] []))
       = Inr ''20m''"
  by (simp add: sample_defs periodic_defs generate_defs job_defs)




text \<open>
  C4, as amended. The base argument list of an e2e job is the concatenation of five
  layers, each hash-substituted: Common, CloudProvider, Image, K8sVersion, TestSuite.
  For an e2enode job the layers are Common, Image, TestSuite, and the job's list is the
  node-argument pass applied to their concatenation.
\<close>

theorem base_args_layers:
  "(E2ETest_generate et = Inr (jobConfig, prowConfig, tgConfig) \<longrightarrow>
      Job.Args jobConfig =
        getArgs (E2ETest.JobName et) (Common.Args (E2ETest.Common et))
        @ getArgs (E2ETest.JobName et) (CloudProvider.Args (E2ETest.CloudProvider et))
        @ getArgs (E2ETest.JobName et) (Image.Args (E2ETest.Image et))
        @ getArgs (E2ETest.JobName et) (K8SVersion.Args (E2ETest.K8SVersion et))
        @ getArgs (E2ETest.JobName et) (TestSuite.Args (E2ETest.TestSuite et)))
   \<and> (E2ENodeTest_generate ent = Inr (nodeJobConfig, nodeProwConfig) \<longrightarrow>
      Job.Args nodeJobConfig =
        coalesceNodeArgs
          (getArgs (E2ENodeTest.JobName ent) (Common.Args (E2ENodeTest.Common ent))
           @ getArgs (E2ENodeTest.JobName ent) (Image.Args (E2ENodeTest.Image ent))
           @ getArgs (E2ENodeTest.JobName ent) (TestSuite.Args (E2ENodeTest.TestSuite ent))))"
  by (auto simp: E2ETest_generate_def E2ETest_getJobDefinition_def
      E2ENodeTest_generate_def E2ENodeTest_getJobDefinition_def Let_def split: if_splits sum.splits)

theorem base_args_layers_witness:
  "(\<exists>jobConfig prowConfig tgConfig.
      E2ETest_generate (exampleE2ETest [''--timeout=120m'']) = Inr (jobConfig, prowConfig, tgConfig)
      \<and> Job.Args jobConfig =
          [''--node-args=a'', ''--provider=gce'', ''--x=1'', ''--extract=ci/latest-1.29'', ''--timeout=120m''])
   \<and> (\<exists>jobConfig prowConfig.
      E2ENodeTest_generate (exampleE2ENodeTest [''--timeout=120m'']) = Inr (jobConfig, prowConfig)
      \<and> Job.Args jobConfig = coalesceNodeArgs [''--node-args=a'', ''--x=1'', ''--timeout=120m''])"
proof -
  obtain j p t where e2e: "E2ETest_generate (exampleE2ETest [''--timeout=120m'']) = Inr (j, p, t)"
    by (simp add: sample_defs periodic_defs generate_defs)
  obtain nj np where node: "E2ENodeTest_generate (exampleE2ENodeTest [''--timeout=120m'']) = Inr (nj, np)"
    by (simp add: sample_defs periodic_defs generate_defs)
  from base_args_layers [of "exampleE2ETest [''--timeout=120m'']" j p t
      "exampleE2ENodeTest [''--timeout=120m'']" nj np] e2e node
  have "Job.Args j =
          [''--node-args=a'', ''--provider=gce'', ''--x=1'', ''--extract=ci/latest-1.29'', ''--timeout=120m'']"
    and "Job.Args nj = coalesceNodeArgs [''--node-args=a'', ''--x=1'', ''--timeout=120m'']"
    by (simp_all add: sample_defs getArgs_def substitute_def)
  with e2e node show ?thesis
    by blast
qed

text \<open>
  The claim as stated names four layers for an e2e job, with one layer for the cloud
  provider or the image. On the sample e2e test the list holds the cloud provider's
  \<open>--provider=gce\<close> and the image's \<open>--x=1\<close>, one after the other.
\<close>

theorem base_args_layers_counterexample:
  "map_sum id (Job.Args \<circ> fst) (E2ETest_generate (exampleE2ETest [])) =
     Inr [''--node-args=a'', ''--provider=gce'', ''--x=1'', ''--extract=ci/latest-1.29'']
   \<and> CloudProvider.Args (E2ETest.CloudProvider (exampleE2ETest [])) = [''--provider=gce'']
   \<and> Image.Args (E2ETest.Image (exampleE2ETest [])) = [''--x=1'']"
  by (simp add: sample_defs periodic_defs generate_defs)

text \<open>
  C5, as amended. In an e2enode job the node-argument pass runs on the base list, the
  layers Common, Image, TestSuite, before the job's overrides. Every base argument that
  contains \<open>--node-args=\<close>, at its start or anywhere else, is taken out; the others keep
  their order; and when at least one was taken out, a single entry is added at the end:
  \<open>--node-args=\<close> followed by the values (the text after each argument's first \<open>=\<close>)
  joined by spaces, in the order met, with white space trimmed from the end of the whole
  entry. That is the list \<open>generate\<close> returns. The argument list of the emitted container
  is the arguments of the node k8s version, then \<open>--root=/go/src\<close>, then the job's
  overrides applied to that list by \<open>applyJobOverrides\<close>; neither the arguments of the node
  k8s version nor the overrides go through the pass. For a job without overrides the
  emitted list therefore ends with the coalesced list itself.
\<close>

theorem node_args_coalesced:
  assumes "args = getArgs (E2ENodeTest.JobName ent) (Common.Args (E2ENodeTest.Common ent))
              @ getArgs (E2ENodeTest.JobName ent) (Image.Args (E2ENodeTest.Image ent))
              @ getArgs (E2ENodeTest.JobName ent) (TestSuite.Args (E2ENodeTest.TestSuite ent))"
    and "picked = filter (\<lambda>a. Contains a ''--node-args='') args"
    and "coalesced = filter (\<lambda>a. \<not> Contains a ''--node-args='') args
           @ (if picked = [] then []
              else [TrimSpace (''--node-args='' @ Join (map nodeArgValue picked) '' '')])"
  shows "(E2ENodeTest_generate ent = Inr (jobConfig, prowConfig) \<longrightarrow> Job.Args jobConfig = coalesced)
         \<and> (forEachJob outputDir jobName job config = Inr (prow, testgrid)
              \<and> Split jobName (CHR ''-'') ! 2 = ''e2enode''
              \<and> newE2ENodeTest jobName job config = Inr ent \<longrightarrow>
              map Container.Args (Containers (Periodic.Spec prow)) =
                [NodeK8SVersion.Args (E2ENodeTest.K8SVersion ent) @ [''--root=/go/src'']
                 @ applyJobOverrides coalesced (getArgs jobName (Job.Args job))])
         \<and> (forEachJob outputDir jobName job config = Inr (prow, testgrid)
              \<and> Split jobName (CHR ''-'') ! 2 = ''e2enode''
              \<and> newE2ENodeTest jobName job config = Inr ent \<and> Job.Args job = [] \<longrightarrow>
              map Container.Args (Containers (Periodic.Spec prow)) =
                [NodeK8SVersion.Args (E2ENodeTest.K8SVersion ent) @ [''--root=/go/src''] @ coalesced])"
proof -
  have c: "coalesceNodeArgs args = coalesced"
    unfolding assms(3) assms(2) by (simp only: coalesceNodeArgs_eq)
  have emitted: "map Container.Args (Containers (Periodic.Spec prow)) =
      [NodeK8SVersion.Args (E2ENodeTest.K8SVersion ent) @ [''--root=/go/src'']
       @ applyJobOverrides coalesced (getArgs jobName (Job.Args job))]"
    if ok: "forEachJob outputDir jobName job config = Inr (prow, testgrid)"
      and kind: "Split jobName (CHR ''-'') ! 2 = ''e2enode''"
      and ent: "newE2ENodeTest jobName job config = Inr ent"
  proof -
    from newE2ENodeTest_Inr [OF ent] have "E2ENodeTest.JobName ent = jobName"
      by simp
    with forEachJob_e2enode_args [OF ok kind ent] c show ?thesis
      unfolding assms(1) by simp
  qed
  show ?thesis
  proof (intro conjI impI)
    assume "E2ENodeTest_generate ent = Inr (jobConfig, prowConfig)"
    from E2ENodeTest_generate_args(2) [OF this] c show "Job.Args jobConfig = coalesced"
      unfolding assms(1) by simp
  next
    assume "forEachJob outputDir jobName job config = Inr (prow, testgrid)
        \<and> Split jobName (CHR ''-'') ! 2 = ''e2enode''
        \<and> newE2ENodeTest jobName job config = Inr ent"
    then show "map Container.Args (Containers (Periodic.Spec prow)) =
        [NodeK8SVersion.Args (E2ENodeTest.K8SVersion ent) @ [''--root=/go/src'']
         @ applyJobOverrides coalesced (getArgs jobName (Job.Args job))]"
      using emitted by blast
  next
    assume a: "forEachJob outputDir jobName job config = Inr (prow, testgrid)
        \<and> Split jobName (CHR ''-'') ! 2 = ''e2enode''
        \<and> newE2ENodeTest jobName job config = Inr ent \<and> Job.Args job = []"
    then have "map Container.Args (Containers (Periodic.Spec prow)) =
        [NodeK8SVersion.Args (E2ENodeTest.K8SVersion ent) @ [''--root=/go/src'']
         @ applyJobOverrides coalesced (getArgs jobName (Job.Args job))]"
      using emitted by blast
    with a show "map Container.Args (Containers (Periodic.Spec prow)) =
        [NodeK8SVersion.Args (E2ENodeTest.K8SVersion ent) @ [''--root=/go/src''] @ coalesced]"
      by (simp add: getArgs_def substitute_def applyJobOverrides_Nil)
  qed
qed

theorem node_args_coalesced_witness:
  "(\<exists>jobConfig prowConfig.
      E2ENodeTest_generate (exampleE2ENodeTest [''--node-args=b'']) = Inr (jobConfig, prowConfig)
      \<and> Job.Args jobConfig = [''--x=1'', ''--node-args=a b''])
   \<and> (\<exists>prow testgrid.
      forEachJob ''out'' ''ci-kubernetes-e2enode-cos-k8sbeta-default'' exampleJob
        (exampleConfig [] [''--node-args=b'']) = Inr (prow, testgrid)
      \<and> map Container.Args (Containers (Periodic.Spec prow)) =
          [[''--root=/go/src'', ''--x=1'', ''--node-args=a b'']])"
proof -
  let ?ent = "exampleE2ENodeTest [''--node-args=b'']"
  have coalesced: "filter (\<lambda>a. \<not> Contains a ''--node-args='') [''--node-args=a'', ''--x=1'', ''--node-args=b'']
      @ (if filter (\<lambda>a. Contains a ''--node-args='') [''--node-args=a'', ''--x=1'', ''--node-args=b''] = []
         then []
         else [TrimSpace (''--node-args='' @ Join (map nodeArgValue
                 (filter (\<lambda>a. Contains a ''--node-args='')
                    [''--node-args=a'', ''--x=1'', ''--node-args=b''])) '' '')])
      = [''--x=1'', ''--node-args=a b'']"
    by (simp add: nodeArgValue_def TrimSpace_def whiteSpace_def trimLeft.simps)
  have args: "[''--node-args=a'', ''--x=1'', ''--node-args=b''] =
      getArgs (E2ENodeTest.JobName ?ent) (Common.Args (E2ENodeTest.Common ?ent))
      @ getArgs (E2ENodeTest.JobName ?ent) (Image.Args (E2ENodeTest.Image ?ent))
      @ getArgs (E2ENodeTest.JobName ?ent) (TestSuite.Args (E2ENodeTest.TestSuite ?ent))"
    by (simp add: sample_defs getArgs_def substitute_def)
  note inst = node_args_coalesced [OF args refl refl, unfolded coalesced]
  obtain j p where g: "E2ENodeTest_generate ?ent = Inr (j, p)"
    by (simp add: sample_defs periodic_defs generate_defs)
  with inst [where jobConfig = j and prowConfig = p] have first: "Job.Args j = [''--x=1'', ''--node-args=a b'']"
    by blast
  have ent: "newE2ENodeTest ''ci-kubernetes-e2enode-cos-k8sbeta-default'' exampleJob
      (exampleConfig [] [''--node-args=b'']) = Inr ?ent"
    by (simp add: newE2ENodeTest_def sample_defs)
  have kind: "Split ''ci-kubernetes-e2enode-cos-k8sbeta-default'' (CHR ''-'') ! 2 = ''e2enode''"
    by simp
  have noargs: "Job.Args exampleJob = []"
    by (simp add: exampleJob_def zeroJob_def)
  obtain prow testgrid where ok:
    "forEachJob ''out'' ''ci-kubernetes-e2enode-cos-k8sbeta-default'' exampleJob
       (exampleConfig [] [''--node-args=b'']) = Inr (prow, testgrid)"
    by (simp add: sample_defs periodic_defs generate_defs job_defs)
  with inst [where outputDir = "''out''" and jobName = "''ci-kubernetes-e2enode-cos-k8sbeta-default''"
      and job = exampleJob and config = "exampleConfig [] [''--node-args=b'']"
      and prow = prow and testgrid = testgrid] kind ent noargs
  have "map Container.Args (Containers (Periodic.Spec prow)) =
      [NodeK8SVersion.Args (E2ENodeTest.K8SVersion ?ent) @ [''--root=/go/src'']
       @ [''--x=1'', ''--node-args=a b'']]"
    by blast
  then have emitted: "map Container.Args (Containers (Periodic.Spec prow)) =
      [[''--root=/go/src'', ''--x=1'', ''--node-args=a b'']]"
    by (simp add: exampleE2ENodeTest_def zeroNodeK8SVersion_def)
  show ?thesis
  proof (intro conjI exI)
    show "E2ENodeTest_generate ?ent = Inr (j, p)"
      by (fact g)
    show "Job.Args j = [''--x=1'', ''--node-args=a b'']"
      by (fact first)
    show "forEachJob ''out'' ''ci-kubernetes-e2enode-cos-k8sbeta-default'' exampleJob
        (exampleConfig [] [''--node-args=b'']) = Inr (prow, testgrid)"
      by (fact ok)
    show "map Container.Args (Containers (Periodic.Spec prow)) =
        [[''--root=/go/src'', ''--x=1'', ''--node-args=a b'']]"
      by (fact emitted)
  qed
qed

text \<open>
  The claim as stated speaks of the compiled list and of a final list with a single
  \<open>--node-args=\<close> entry. The pass runs before the overrides, and they are not coalesced:
  the job arguments \<open>--node-args=b, --node-args=c\<close> take the place of the base value \<open>a\<close>
  and stand as two entries in the emitted list. It keeps every entry that does not start
  with \<open>--node-args=\<close>, but the test is \<open>strings.Contains\<close>, not a prefix test: the suite
  argument \<open>--x=--node-args=b\<close> does not start with the flag, and is taken out all the
  same, its value \<open>--node-args=b\<close> joined to the value \<open>a\<close> of the common layer. And the
  entry is trimmed: with the values \<open>a\<close> and the empty text of \<open>--node-args=\<close>, joining by
  a space would end in that space, and the entry does not.
\<close>

theorem node_args_coalesced_counterexample:
  "map_sum id (map Container.Args \<circ> Containers \<circ> Periodic.Spec \<circ> fst)
     (forEachJob ''out'' ''ci-kubernetes-e2enode-cos-k8sbeta-default''
        (exampleJob\<lparr>Job.Args := [''--node-args=b'', ''--node-args=c'']\<rparr>) (exampleConfig [] []))
     = Inr [[''--root=/go/src'', ''--x=1'', ''--node-args=b'', ''--node-args=c'']]
   \<and> \<not> prefix ''--node-args='' ''--x=--node-args=b''
   \<and> map_sum id (Job.Args \<circ> fst) (E2ENodeTest_generate (exampleE2ENodeTest [''--x=--node-args=b''])) =
       Inr [''--x=1'', ''--node-args=a --node-args=b'']
   \<and> map_sum id (Job.Args \<circ> fst) (E2ENodeTest_generate (exampleE2ENodeTest [''--node-args=''])) =
       Inr [''--x=1'', ''--node-args=a'']"
  by (simp add: sample_defs periodic_defs generate_defs job_defs)

text \<open>
  C6, as amended. Let the first entry of the test suite's arguments that starts with
  \<open>--timeout=\<close> be \<open>--timeout=\<close>, a text \<open>v\<close> and one final character. If \<open>v\<close> is the
  decimal numeral of \<open>n\<close> and \<open>n + 20\<close> fits a 64-bit \<open>int\<close>, then for a job with a
  schedule both \<open>getProwConfig\<close> functions set the decoration timeout to the numeral of
  \<open>n + 20\<close> followed by \<open>m\<close>, and so does every periodic that \<open>forEachJob\<close> emits for a job
  name whose last field names that test suite. If \<open>v\<close> is not numeric text, both
  \<open>getProwConfig\<close> functions stop with the fatal timeout error for a job with a schedule,
  and \<open>forEachJob\<close> emits nothing.
\<close>

theorem timeout_adds_buffer:
  assumes "find (prefix ''--timeout='') (TestSuite.Args testSuite) = Some (''--timeout='' @ v @ [u])"
  shows "(Job.Interval (E2ETest.Job et) \<noteq> [] \<or> Job.Cron (E2ETest.Job et) \<noteq> [] \<longrightarrow>
            (v = natToString n \<and> n + 20 < 2 ^ 63 \<longrightarrow>
               map_sum id (Timeout \<circ> Periodic.DecorationConfig) (E2ETest_getProwConfig et testSuite)
                 = Inr (natToString (n + 20) @ ''m''))
            \<and> (\<not> numericText v \<longrightarrow> E2ETest_getProwConfig et testSuite = Inl TimeoutParseError))
         \<and> (Job.Interval (E2ENodeTest.Job ent) \<noteq> [] \<or> Job.Cron (E2ENodeTest.Job ent) \<noteq> [] \<longrightarrow>
            (v = natToString n \<and> n + 20 < 2 ^ 63 \<longrightarrow>
               map_sum id (Timeout \<circ> Periodic.DecorationConfig)
                   (E2ENodeTest_getProwConfig ent testSuite k8sVersion)
                 = Inr (natToString (n + 20) @ ''m''))
            \<and> (\<not> numericText v \<longrightarrow>
               E2ENodeTest_getProwConfig ent testSuite k8sVersion = Inl TimeoutParseError))
         \<and> (testSuite = lookup zeroTestSuite (TestSuites config) (last (Split jobName (CHR ''-''))) \<longrightarrow>
            (forEachJob outputDir jobName job config = Inr (prow, testgrid)
               \<and> v = natToString n \<and> n + 20 < 2 ^ 63 \<longrightarrow>
               Timeout (Periodic.DecorationConfig prow) = natToString (n + 20) @ ''m'')
            \<and> (\<not> numericText v \<longrightarrow> (\<exists>e. forEachJob outputDir jobName job config = Inl e)))"
proof (intro conjI impI)
  assume sched: "Job.Interval (E2ETest.Job et) \<noteq> [] \<or> Job.Cron (E2ETest.Job et) \<noteq> []"
  show "map_sum id (Timeout \<circ> Periodic.DecorationConfig) (E2ETest_getProwConfig et testSuite)
      = Inr (natToString (n + 20) @ ''m'')" if "v = natToString n \<and> n + 20 < 2 ^ 63"
  proof -
    from that assms have entry: "find (prefix ''--timeout='') (TestSuite.Args testSuite)
        = Some (''--timeout='' @ natToString n @ [u])" and n: "n + 20 < 2 ^ 63"
      by simp_all
    from sched show ?thesis
      by (auto simp: E2ETest_getProwConfig_def Let_def setSchedule_def setTimeout_entry_value [OF entry n])
  qed
  show "E2ETest_getProwConfig et testSuite = Inl TimeoutParseError" if "\<not> numericText v"
    using sched
    by (auto simp: E2ETest_getProwConfig_def Let_def setSchedule_def setTimeout_entry_fatal [OF assms that])
next
  assume sched: "Job.Interval (E2ENodeTest.Job ent) \<noteq> [] \<or> Job.Cron (E2ENodeTest.Job ent) \<noteq> []"
  show "map_sum id (Timeout \<circ> Periodic.DecorationConfig) (E2ENodeTest_getProwConfig ent testSuite k8sVersion)
      = Inr (natToString (n + 20) @ ''m'')" if "v = natToString n \<and> n + 20 < 2 ^ 63"
  proof -
    from that assms have entry: "find (prefix ''--timeout='') (TestSuite.Args testSuite)
        = Some (''--timeout='' @ natToString n @ [u])" and n: "n + 20 < 2 ^ 63"
      by simp_all
    from sched show ?thesis
      by (auto simp: E2ENodeTest_getProwConfig_def Let_def setSchedule_def setTimeout_entry_value [OF entry n])
  qed
  show "E2ENodeTest_getProwConfig ent testSuite k8sVersion = Inl TimeoutParseError" if "\<not> numericText v"
    using sched
    by (auto simp: E2ENodeTest_getProwConfig_def Let_def setSchedule_def setTimeout_entry_fatal [OF assms that])
next
  assume suite: "testSuite = lookup zeroTestSuite (TestSuites config) (last (Split jobName (CHR ''-'')))"
  show "Timeout (Periodic.DecorationConfig prow) = natToString (n + 20) @ ''m''"
    if "forEachJob outputDir jobName job config = Inr (prow, testgrid)
        \<and> v = natToString n \<and> n + 20 < 2 ^ 63"
  proof -
    from that assms have ok: "forEachJob outputDir jobName job config = Inr (prow, testgrid)"
      and entry: "find (prefix ''--timeout='') (TestSuite.Args testSuite)
        = Some (''--timeout='' @ natToString n @ [u])" and n: "n + 20 < 2 ^ 63"
      by simp_all
    from forEachJob_setTimeout [OF ok] suite obtain q q'
      where "setTimeout testSuite q = Inr q'"
        and dc: "Periodic.DecorationConfig prow = Periodic.DecorationConfig q'"
      by auto
    then have "q' = q\<lparr>Periodic.DecorationConfig := \<lparr>Timeout = natToString (n + 20) @ ''m''\<rparr>\<rparr>"
      by (simp add: setTimeout_entry_value [OF entry n])
    with dc show ?thesis
      by simp
  qed
  show "\<exists>e. forEachJob outputDir jobName job config = Inl e" if "\<not> numericText v"
  proof (cases "forEachJob outputDir jobName job config")
    case (Inl e)
    then show ?thesis by simp
  next
    case (Inr r)
    obtain prow' testgrid' where "r = (prow', testgrid')"
      by (cases r)
    with Inr forEachJob_setTimeout [of outputDir jobName job config prow' testgrid'] suite
    obtain q q' where "setTimeout testSuite q = Inr q'"
      by auto
    with setTimeout_entry_fatal [OF assms that, of q] show ?thesis
      by simp
  qed
qed

theorem timeout_adds_buffer_witness:
  "(\<exists>prow testgrid.
      forEachJob ''out'' ''ci-kubernetes-e2e-gce-cos-k8sbeta-default'' exampleJob
        (exampleConfig [] [''--timeout=120m'']) = Inr (prow, testgrid)
      \<and> Timeout (Periodic.DecorationConfig prow) = ''140m'')
   \<and> (\<exists>prow testgrid.
      forEachJob ''out'' ''ci-kubernetes-e2enode-cos-k8sbeta-default'' exampleJob
        (exampleConfig [] [''--timeout=120m'']) = Inr (prow, testgrid)
      \<and> Timeout (Periodic.DecorationConfig prow) = ''140m'')
   \<and> E2ETest_getProwConfig (exampleE2ETest [''--timeout=soonm''])
        (E2ETest.TestSuite (exampleE2ETest [''--timeout=soonm''])) = Inl TimeoutParseError
   \<and> E2ENodeTest_getProwConfig (exampleE2ENodeTest [''--timeout=soonm''])
        (E2ENodeTest.TestSuite (exampleE2ENodeTest [''--timeout=soonm''])) zeroNodeK8SVersion
       = Inl TimeoutParseError"
proof -
  let ?suite = "zeroTestSuite\<lparr>TestSuite.Args := [''--timeout=120m'']\<rparr>"
  have entry: "find (prefix ''--timeout='') (TestSuite.Args ?suite) = Some (''--timeout='' @ ''120'' @ [CHR ''m''])"
    by (simp add: zeroTestSuite_def)
  have numeral: "''120'' = natToString 120 \<and> (120::nat) + 20 < 2 ^ 63" "natToString (120 + 20) = ''140''"
    by (simp_all add: natToString.simps)
  obtain prow testgrid where e2e:
    "forEachJob ''out'' ''ci-kubernetes-e2e-gce-cos-k8sbeta-default'' exampleJob
       (exampleConfig [] [''--timeout=120m'']) = Inr (prow, testgrid)"
    by (simp add: sample_defs periodic_defs generate_defs job_defs)
  obtain nprow ntestgrid where node:
    "forEachJob ''out'' ''ci-kubernetes-e2enode-cos-k8sbeta-default'' exampleJob
       (exampleConfig [] [''--timeout=120m'']) = Inr (nprow, ntestgrid)"
    by (simp add: sample_defs periodic_defs generate_defs job_defs)
  have "?suite = lookup zeroTestSuite (TestSuites (exampleConfig [] [''--timeout=120m'']))
          (last (Split ''ci-kubernetes-e2e-gce-cos-k8sbeta-default'' (CHR ''-'')))"
    by (simp add: exampleConfig_def lookup_def)
  with timeout_adds_buffer [OF entry, of "exampleE2ETest []" 120 "exampleE2ENodeTest []" zeroNodeK8SVersion
      "exampleConfig [] [''--timeout=120m'']" "''ci-kubernetes-e2e-gce-cos-k8sbeta-default''" "''out''"
      exampleJob prow testgrid] e2e numeral
  have t1: "Timeout (Periodic.DecorationConfig prow) = ''140m''"
    by simp
  have "?suite = lookup zeroTestSuite (TestSuites (exampleConfig [] [''--timeout=120m'']))
          (last (Split ''ci-kubernetes-e2enode-cos-k8sbeta-default'' (CHR ''-'')))"
    by (simp add: exampleConfig_def lookup_def)
  with timeout_adds_buffer [OF entry, of "exampleE2ETest []" 120 "exampleE2ENodeTest []" zeroNodeK8SVersion
      "exampleConfig [] [''--timeout=120m'']" "''ci-kubernetes-e2enode-cos-k8sbeta-default''" "''out''"
      exampleJob nprow ntestgrid] node numeral
  have t2: "Timeout (Periodic.DecorationConfig nprow) = ''140m''"
    by simp
  let ?bad = "zeroTestSuite\<lparr>TestSuite.Args := [''--timeout=soonm'']\<rparr>"
  have bad: "find (prefix ''--timeout='') (TestSuite.Args ?bad) = Some (''--timeout='' @ ''soon'' @ [CHR ''m''])"
    by (simp add: zeroTestSuite_def)
  from timeout_adds_buffer [OF bad, of "exampleE2ETest [''--timeout=soonm'']" 0
      "exampleE2ENodeTest [''--timeout=soonm'']" zeroNodeK8SVersion]
  have "E2ETest_getProwConfig (exampleE2ETest [''--timeout=soonm''])
        (E2ETest.TestSuite (exampleE2ETest [''--timeout=soonm''])) = Inl TimeoutParseError"
    and "E2ENodeTest_getProwConfig (exampleE2ENodeTest [''--timeout=soonm''])
        (E2ENodeTest.TestSuite (exampleE2ENodeTest [''--timeout=soonm''])) zeroNodeK8SVersion
       = Inl TimeoutParseError"
    by (simp_all add: sample_defs numericText_def isDigit_def)
  with e2e t1 node t2 show ?thesis
    by blast
qed

text \<open>
  The claim as stated speaks of any entry of that form. With two of them the first
  decides: the suite \<open>--timeout=60m, --timeout=120m\<close> holds the entry with \<open>N = 120\<close>, and
  the timeout is \<open>80m\<close>, not \<open>140m\<close>. And the sum is taken in a 64-bit \<open>int\<close>: for the
  largest value \<open>Atoi\<close> accepts it wraps around to a negative number.
\<close>

theorem timeout_adds_buffer_counterexample:
  "''--timeout=120m'' \<in> set (TestSuite.Args (E2ETest.TestSuite (exampleE2ETest [''--timeout=60m'', ''--timeout=120m''])))
   \<and> map_sum id (Timeout \<circ> Periodic.DecorationConfig)
     (E2ETest_getProwConfig (exampleE2ETest [''--timeout=60m'', ''--timeout=120m''])
        (E2ETest.TestSuite (exampleE2ETest [''--timeout=60m'', ''--timeout=120m'']))) = Inr ''80m''
   \<and> map_sum id (Timeout \<circ> Periodic.DecorationConfig)
     (E2ETest_getProwConfig (exampleE2ETest [''--timeout=9223372036854775807m''])
        (E2ETest.TestSuite (exampleE2ETest [''--timeout=9223372036854775807m''])))
       = Inr ''-9223372036854775789m''"
  by (simp add: sample_defs periodic_defs)

text \<open>
  C7. For an e2e job the dashboard list starts with the primary dashboard:
  \<open>sig-release-<version>-blocking\<close> when the job is release blocking, else
  \<open>sig-release-<version>-informing\<close> when it is release informing, else
  \<open>sig-release-generated\<close>. In the periodic that \<open>generate\<close> builds, and in the one
  \<open>forEachJob\<close> emits, the version is that of the resolved K8sVersion axis (the entry of
  \<open>k8sVersions\<close> under field 5 of the job name without its first three bytes), and the
  dashboards annotation is the primary dashboard, then the image's dashboard when the
  image has a testgrid prefix, joined by a comma and a space.
\<close>

theorem primary_dashboard:
  "E2ETest_InitializeDashBoardsWithReleaseBlockingInfo et version =
     [primaryDashboard (Job.ReleaseBlocking (E2ETest.Job et)) (Job.ReleaseInforming (E2ETest.Job et)) version]
   \<and> (E2ETest_generate et = Inr (jobConfig, prowConfig, tgConfig) \<longrightarrow>
        Periodic.Annotations prowConfig ''testgrid-dashboards'' =
          Some (Join (primaryDashboard (Job.ReleaseBlocking (E2ETest.Job et))
                        (Job.ReleaseInforming (E2ETest.Job et)) (K8SVersion.Version (E2ETest.K8SVersion et))
                      # (if Image.TestgridPrefix (E2ETest.Image et) \<noteq> []
                         then [Image.TestgridPrefix (E2ETest.Image et) @ ''-'' @ E2ETest.fields' et ! 4
                               @ ''-'' @ E2ETest.fields' et ! 5]
                         else [])) '', ''))
   \<and> (forEachJob outputDir jobName job config = Inr (prow, testgrid)
        \<and> fs = Split jobName (CHR ''-'') \<and> fs ! 2 = ''e2e''
        \<and> img = lookup zeroImage (Images config) (fs ! 4)
        \<and> resolved = lookup zeroK8SVersion (K8SVersions config) (drop 3 (fs ! 5)) \<longrightarrow>
        Periodic.Annotations prow ''testgrid-dashboards'' =
          Some (Join (primaryDashboard (Job.ReleaseBlocking job) (Job.ReleaseInforming job)
                        (K8SVersion.Version resolved)
                      # (if Image.TestgridPrefix img \<noteq> []
                         then [Image.TestgridPrefix img @ ''-'' @ fs ! 4 @ ''-'' @ fs ! 5]
                         else [])) '', ''))"
proof (intro conjI impI)
  show "E2ETest_InitializeDashBoardsWithReleaseBlockingInfo et version =
     [primaryDashboard (Job.ReleaseBlocking (E2ETest.Job et)) (Job.ReleaseInforming (E2ETest.Job et)) version]"
    by (rule InitializeDashBoards_primary)
next
  assume "E2ETest_generate et = Inr (jobConfig, prowConfig, tgConfig)"
  from E2ETest_generate_dashboards [OF this]
  show "Periodic.Annotations prowConfig ''testgrid-dashboards'' =
          Some (Join (primaryDashboard (Job.ReleaseBlocking (E2ETest.Job et))
                        (Job.ReleaseInforming (E2ETest.Job et)) (K8SVersion.Version (E2ETest.K8SVersion et))
                      # (if Image.TestgridPrefix (E2ETest.Image et) \<noteq> []
                         then [Image.TestgridPrefix (E2ETest.Image et) @ ''-'' @ E2ETest.fields' et ! 4
                               @ ''-'' @ E2ETest.fields' et ! 5]
                         else [])) '', '')"
    by (simp add: InitializeDashBoards_primary)
next
  assume a: "forEachJob outputDir jobName job config = Inr (prow, testgrid)
        \<and> fs = Split jobName (CHR ''-'') \<and> fs ! 2 = ''e2e''
        \<and> img = lookup zeroImage (Images config) (fs ! 4)
        \<and> resolved = lookup zeroK8SVersion (K8SVersions config) (drop 3 (fs ! 5))"
  then have ok: "forEachJob outputDir jobName job config = Inr (prow, testgrid)"
    and fs: "fs = Split jobName (CHR ''-'')" and kind: "fs ! 2 = ''e2e''"
    and img: "img = lookup zeroImage (Images config) (fs ! 4)"
    and resolved: "resolved = lookup zeroK8SVersion (K8SVersions config) (drop 3 (fs ! 5))"
    by blast+
  from kind have kind': "Split jobName (CHR ''-'') ! 2 = ''e2e''"
    unfolding fs .
  from resolved have "K8SVersion.Version resolved =
      K8SVersion.Version (lookup zeroK8SVersion (K8SVersions config) (drop 3 (fs ! 5)))"
    by simp
  from forEachJob_dashboards [OF ok kind' fs img this]
  show "Periodic.Annotations prow ''testgrid-dashboards'' =
          Some (Join (primaryDashboard (Job.ReleaseBlocking job) (Job.ReleaseInforming job)
                        (K8SVersion.Version resolved)
                      # (if Image.TestgridPrefix img \<noteq> []
                         then [Image.TestgridPrefix img @ ''-'' @ fs ! 4 @ ''-'' @ fs ! 5]
                         else [])) '', '')" .
qed

theorem primary_dashboard_witness:
  "primaryDashboard True False ''1.29'' = ''sig-release-1.29-blocking''
   \<and> (\<exists>prow testgrid.
        forEachJob ''out'' ''ci-kubernetes-e2e-gce-cos-k8sbeta-default'' exampleJob (exampleConfig [] [])
          = Inr (prow, testgrid)
        \<and> Periodic.Annotations prow ''testgrid-dashboards'' =
            Some ''sig-release-1.29-blocking, google-gce-cos-k8sbeta'')"
proof -
  obtain prow testgrid where ok:
    "forEachJob ''out'' ''ci-kubernetes-e2e-gce-cos-k8sbeta-default'' exampleJob (exampleConfig [] [])
       = Inr (prow, testgrid)"
    by (simp add: sample_defs periodic_defs generate_defs job_defs)
  have fs: "Split ''ci-kubernetes-e2e-gce-cos-k8sbeta-default'' (CHR ''-'')
      = [''ci'', ''kubernetes'', ''e2e'', ''gce'', ''cos'', ''k8sbeta'', ''default'']"
    by simp
  from primary_dashboard [of _ _ _ _ _ "''out''" "''ci-kubernetes-e2e-gce-cos-k8sbeta-default''" exampleJob
      "exampleConfig [] []" prow testgrid
      "[''ci'', ''kubernetes'', ''e2e'', ''gce'', ''cos'', ''k8sbeta'', ''default'']"
      "lookup zeroImage (Images (exampleConfig [] [])) ''cos''"
      "lookup zeroK8SVersion (K8SVersions (exampleConfig [] [])) ''beta''"] ok fs
  have "Periodic.Annotations prow ''testgrid-dashboards'' =
            Some ''sig-release-1.29-blocking, google-gce-cos-k8sbeta''"
    by (simp add: exampleConfig_def exampleJob_def zeroJob_def lookup_def primaryDashboard_def)
  with ok show ?thesis
    by (auto simp: primaryDashboard_def)
qed

text \<open>
  C8, as amended. Compiling a job stops with a malformed-job-name error exactly when the
  name fails the shape rules: fewer than three fields, a kind at index 2 that is neither
  \<open>e2e\<close> nor \<open>e2enode\<close>, or a field count other than 7 for \<open>e2e\<close> and 6 for \<open>e2enode\<close>.
  For a conforming name whose k8s-version field has at least three bytes the keys are
  read at the fixed positions: fields 3 to 6 for \<open>e2e\<close> (cloud provider, image,
  k8s version without its first three bytes, test suite), fields 3 to 5 for \<open>e2enode\<close>
  (image, node k8s version without its first three bytes, test suite).
\<close>

theorem job_name_shape:
  assumes "fs = Split jobName (CHR ''-'')"
  shows "((\<exists>e. forEachJob outputDir jobName job config = Inl e \<and> jobNameError e)
            \<longleftrightarrow> \<not> conformingJobName jobName)
         \<and> (length fs = 7 \<and> fs ! 2 = ''e2e'' \<and> 3 \<le> length (fs ! 5) \<longrightarrow>
              (\<exists>et. newE2ETest outputDir jobName job config = Inr et
                 \<and> E2ETest.CloudProvider et = lookup zeroCloudProvider (CloudProviders config) (fs ! 3)
                 \<and> E2ETest.Image et = lookup zeroImage (Images config) (fs ! 4)
                 \<and> E2ETest.K8SVersion et = lookup zeroK8SVersion (K8SVersions config) (drop 3 (fs ! 5))
                 \<and> E2ETest.TestSuite et = lookup zeroTestSuite (TestSuites config) (fs ! 6)))
         \<and> (length fs = 6 \<and> fs ! 2 = ''e2enode'' \<and> 3 \<le> length (fs ! 4) \<longrightarrow>
              (\<exists>ent. newE2ENodeTest jobName job config = Inr ent
                 \<and> E2ENodeTest.Image ent = lookup zeroImage (Images config) (fs ! 3)
                 \<and> E2ENodeTest.K8SVersion ent =
                     lookup zeroNodeK8SVersion (NodeK8SVersions config) (drop 3 (fs ! 4))
                 \<and> E2ENodeTest.TestSuite ent = lookup zeroTestSuite (TestSuites config) (fs ! 5)))"
  unfolding assms
  by (simp add: forEachJob_name_error_iff newE2ETest_def newE2ENodeTest_def Let_def)

theorem job_name_shape_witness:
  "\<not> (\<exists>e. forEachJob ''out'' ''ci-kubernetes-e2e-gce-cos-k8sbeta-default'' exampleJob (exampleConfig [] []) = Inl e
         \<and> jobNameError e)
   \<and> (\<exists>e. forEachJob ''out'' ''ci-kubernetes-e2e-gce-cos-k8sbeta'' exampleJob (exampleConfig [] []) = Inl e
         \<and> jobNameError e)
   \<and> (\<exists>et. newE2ETest ''out'' ''ci-kubernetes-e2e-gce-cos-k8sbeta-default'' exampleJob (exampleConfig [] []) = Inr et
         \<and> CloudProvider.Args (E2ETest.CloudProvider et) = [''--provider=gce'']
         \<and> Image.Args (E2ETest.Image et) = [''--x=1'']
         \<and> K8SVersion.Version (E2ETest.K8SVersion et) = ''1.29'')
   \<and> (\<exists>ent. newE2ENodeTest ''ci-kubernetes-e2enode-cos-k8sbeta-default'' exampleJob (exampleConfig [] []) = Inr ent
         \<and> Image.Args (E2ENodeTest.Image ent) = [''--x=1''])"
proof -
  note good = job_name_shape [OF refl, of "''out''" "''ci-kubernetes-e2e-gce-cos-k8sbeta-default''"
      exampleJob "exampleConfig [] []"]
  note short = job_name_shape [OF refl, of "''out''" "''ci-kubernetes-e2e-gce-cos-k8sbeta''"
      exampleJob "exampleConfig [] []"]
  note node = job_name_shape [OF refl, of "''out''" "''ci-kubernetes-e2enode-cos-k8sbeta-default''"
      exampleJob "exampleConfig [] []"]
  have "conformingJobName ''ci-kubernetes-e2e-gce-cos-k8sbeta-default''"
    and "\<not> conformingJobName ''ci-kubernetes-e2e-gce-cos-k8sbeta''"
    by (simp_all add: conformingJobName_def)
  with good short
  have names: "\<not> (\<exists>e. forEachJob ''out'' ''ci-kubernetes-e2e-gce-cos-k8sbeta-default'' exampleJob
                    (exampleConfig [] []) = Inl e \<and> jobNameError e)"
    "\<exists>e. forEachJob ''out'' ''ci-kubernetes-e2e-gce-cos-k8sbeta'' exampleJob (exampleConfig [] []) = Inl e
         \<and> jobNameError e"
    by blast+
  from good obtain et
    where et: "newE2ETest ''out'' ''ci-kubernetes-e2e-gce-cos-k8sbeta-default'' exampleJob (exampleConfig [] []) = Inr et"
      and "E2ETest.CloudProvider et = lookup zeroCloudProvider (CloudProviders (exampleConfig [] [])) ''gce''"
      and "E2ETest.Image et = lookup zeroImage (Images (exampleConfig [] [])) ''cos''"
      and "E2ETest.K8SVersion et = lookup zeroK8SVersion (K8SVersions (exampleConfig [] [])) ''beta''"
    by auto
  then have e2e: "CloudProvider.Args (E2ETest.CloudProvider et) = [''--provider=gce'']"
    "Image.Args (E2ETest.Image et) = [''--x=1'']" "K8SVersion.Version (E2ETest.K8SVersion et) = ''1.29''"
    by (simp_all add: exampleConfig_def lookup_def)
  from node obtain ent
    where ent: "newE2ENodeTest ''ci-kubernetes-e2enode-cos-k8sbeta-default'' exampleJob (exampleConfig [] []) = Inr ent"
      and "E2ENodeTest.Image ent = lookup zeroImage (Images (exampleConfig [] [])) ''cos''"
    by auto
  then have "Image.Args (E2ENodeTest.Image ent) = [''--x=1'']"
    by (simp add: exampleConfig_def lookup_def)
  with names et e2e ent show ?thesis
    by blast
qed

text \<open>
  The claim as stated lets a compilation stop with a fatal error only for a malformed
  name. The sample e2e name conforms, and a job with neither interval nor cron under
  that name stops with the missing-schedule error. And a conforming name does not always
  resolve its keys: with the version field \<open>k8\<close> the constructor panics (C10).
\<close>

theorem job_name_shape_counterexample:
  "conformingJobName ''ci-kubernetes-e2e-gce-cos-k8sbeta-default''
   \<and> forEachJob ''out'' ''ci-kubernetes-e2e-gce-cos-k8sbeta-default'' zeroJob (exampleConfig [] [])
       = Inl NoIntervalOrCron
   \<and> conformingJobName ''ci-kubernetes-e2e-gce-cos-k8-default''
   \<and> newE2ETest ''out'' ''ci-kubernetes-e2e-gce-cos-k8-default'' exampleJob (exampleConfig [] [])
       = Inl SliceBoundsOutOfRange"
  by (simp add: conformingJobName_def sample_defs periodic_defs generate_defs job_defs)

text \<open>
  C9. A job with neither interval nor cron: both \<open>getProwConfig\<close> functions stop with the
  missing-schedule error; compiling the job stops, with that error unless the job name
  already stopped it (a malformed name, or the slice panic of C10); and a batch that
  holds the job stops with an error, which is all \<open>main\<close> then yields. A job with one of
  them set never stops with the missing-schedule error, and whenever a job compiles,
  exactly one of interval and cron is non-empty in its periodic.
\<close>

theorem schedule_required:
  "(Job.Interval job = [] \<and> Job.Cron job = [] \<longrightarrow>
      (E2ETest.Job et = job \<longrightarrow> E2ETest_getProwConfig et testSuite = Inl NoIntervalOrCron)
      \<and> (E2ENodeTest.Job ent = job \<longrightarrow>
           E2ENodeTest_getProwConfig ent testSuite k8sVersion = Inl NoIntervalOrCron)
      \<and> (\<exists>e. forEachJob outputDir jobName job config = Inl e
            \<and> (e = NoIntervalOrCron \<or> e = SliceBoundsOutOfRange \<or> jobNameError e))
      \<and> (map_of (Jobs config) jobName = Some job \<longrightarrow> (\<exists>e. main outputDir config = Inl e)))
   \<and> (Job.Interval job \<noteq> [] \<or> Job.Cron job \<noteq> [] \<longrightarrow>
      (E2ETest.Job et = job \<longrightarrow> E2ETest_getProwConfig et testSuite \<noteq> Inl NoIntervalOrCron)
      \<and> (E2ENodeTest.Job ent = job \<longrightarrow>
           E2ENodeTest_getProwConfig ent testSuite k8sVersion \<noteq> Inl NoIntervalOrCron)
      \<and> forEachJob outputDir jobName job config \<noteq> Inl NoIntervalOrCron)
   \<and> (forEachJob outputDir jobName job config = Inr (prow, testgrid) \<longrightarrow>
      (Job.Interval job \<noteq> [] \<or> Job.Cron job \<noteq> [])
      \<and> (Periodic.Interval prow = []) \<noteq> (Periodic.Cron prow = []))"
proof (intro conjI impI)
  assume none: "Job.Interval job = [] \<and> Job.Cron job = []"
  show "E2ETest_getProwConfig et testSuite = Inl NoIntervalOrCron" if "E2ETest.Job et = job"
    using none that by (simp add: E2ETest_getProwConfig_no_schedule)
  show "E2ENodeTest_getProwConfig ent testSuite k8sVersion = Inl NoIntervalOrCron" if "E2ENodeTest.Job ent = job"
    using none that by (simp add: E2ENodeTest_getProwConfig_no_schedule)
  from none obtain e where stop: "forEachJob outputDir jobName job config = Inl e"
    using forEachJob_no_schedule [of job outputDir jobName config] by auto
  with none show "\<exists>e. forEachJob outputDir jobName job config = Inl e
      \<and> (e = NoIntervalOrCron \<or> e = SliceBoundsOutOfRange \<or> jobNameError e)"
    using forEachJob_no_schedule_error [of job outputDir jobName config e] by blast
  show "\<exists>e. main outputDir config = Inl e" if "map_of (Jobs config) jobName = Some job"
    using stop main_abort [OF that] by blast
next
  assume some: "Job.Interval job \<noteq> [] \<or> Job.Cron job \<noteq> []"
  show "E2ETest_getProwConfig et testSuite \<noteq> Inl NoIntervalOrCron" if "E2ETest.Job et = job"
    using some that E2ETest_getProwConfig_Inl [of et testSuite NoIntervalOrCron] by auto
  show "E2ENodeTest_getProwConfig ent testSuite k8sVersion \<noteq> Inl NoIntervalOrCron" if "E2ENodeTest.Job ent = job"
    using some that E2ENodeTest_getProwConfig_Inl [of ent testSuite k8sVersion NoIntervalOrCron] by auto
  from some show "forEachJob outputDir jobName job config \<noteq> Inl NoIntervalOrCron"
    using forEachJob_schedule_error [of outputDir jobName job config] by blast
next
  assume ok: "forEachJob outputDir jobName job config = Inr (prow, testgrid)"
  show "Job.Interval job \<noteq> [] \<or> Job.Cron job \<noteq> []"
    using ok forEachJob_no_schedule [of job outputDir jobName config] by auto
  show "(Periodic.Interval prow = []) \<noteq> (Periodic.Cron prow = [])"
    using ok by (rule forEachJob_Inr_schedule)
qed

theorem schedule_required_witness:
  "E2ETest_getProwConfig ((exampleE2ETest [])\<lparr>E2ETest.Job := zeroJob\<rparr>) zeroTestSuite = Inl NoIntervalOrCron
   \<and> E2ENodeTest_getProwConfig ((exampleE2ENodeTest [])\<lparr>E2ENodeTest.Job := zeroJob\<rparr>) zeroTestSuite zeroNodeK8SVersion
       = Inl NoIntervalOrCron
   \<and> (\<exists>e. main ''out'' (exampleConfig
         [(''ci-kubernetes-e2e-gce-cos-k8sbeta-default'', exampleJob),
          (''ci-kubernetes-e2enode-cos-k8sbeta-default'', zeroJob)] []) = Inl e)
   \<and> (\<exists>prow testgrid.
         forEachJob ''out'' ''ci-kubernetes-e2e-gce-cos-k8sbeta-default'' exampleJob (exampleConfig [] [])
           = Inr (prow, testgrid)
         \<and> Periodic.Interval prow = ''1h'' \<and> Periodic.Cron prow = [])"
proof -
  obtain prow testgrid where ok:
    "forEachJob ''out'' ''ci-kubernetes-e2e-gce-cos-k8sbeta-default'' exampleJob (exampleConfig [] [])
       = Inr (prow, testgrid)"
    and interval: "Periodic.Interval prow = ''1h''"
    by (simp add: sample_defs periodic_defs generate_defs job_defs)
  from schedule_required [of exampleJob "exampleE2ETest []" zeroTestSuite "exampleE2ENodeTest []" zeroNodeK8SVersion
      "''out''" "''ci-kubernetes-e2e-gce-cos-k8sbeta-default''" "exampleConfig [] []" prow testgrid] ok interval
  have "Periodic.Cron prow = []"
    by simp
  with ok interval have last: "\<exists>prow testgrid.
         forEachJob ''out'' ''ci-kubernetes-e2e-gce-cos-k8sbeta-default'' exampleJob (exampleConfig [] [])
           = Inr (prow, testgrid)
         \<and> Periodic.Interval prow = ''1h'' \<and> Periodic.Cron prow = []"
    by blast
  from schedule_required [of zeroJob "(exampleE2ETest [])\<lparr>E2ETest.Job := zeroJob\<rparr>" zeroTestSuite
      "(exampleE2ENodeTest [])\<lparr>E2ENodeTest.Job := zeroJob\<rparr>" zeroNodeK8SVersion
      "''out''" "''ci-kubernetes-e2enode-cos-k8sbeta-default''"
      "exampleConfig [(''ci-kubernetes-e2e-gce-cos-k8sbeta-default'', exampleJob),
          (''ci-kubernetes-e2enode-cos-k8sbeta-default'', zeroJob)] []"]
  have "E2ETest_getProwConfig ((exampleE2ETest [])\<lparr>E2ETest.Job := zeroJob\<rparr>) zeroTestSuite = Inl NoIntervalOrCron"
    and "E2ENodeTest_getProwConfig ((exampleE2ENodeTest [])\<lparr>E2ENodeTest.Job := zeroJob\<rparr>) zeroTestSuite zeroNodeK8SVersion
       = Inl NoIntervalOrCron"
    and "\<exists>e. main ''out'' (exampleConfig
         [(''ci-kubernetes-e2e-gce-cos-k8sbeta-default'', exampleJob),
          (''ci-kubernetes-e2enode-cos-k8sbeta-default'', zeroJob)] []) = Inl e"
    by (simp_all add: zeroJob_def exampleConfig_def)
  with last show ?thesis
    by blast
qed

text \<open>
  C10. Parsing is not total. An e2e name with seven fields whose field 5 has fewer than
  three bytes, and an e2enode name with six fields whose field 4 has fewer than three
  bytes, make the slice that strips the version prefix panic: the constructor, and with
  it the compilation of the job, stops with the slice-bounds panic, which is not one of
  the malformed-job-name errors.
\<close>

theorem short_version_field_panics:
  assumes "fs = Split jobName (CHR ''-'')"
  shows "(length fs = 7 \<and> fs ! 2 = ''e2e'' \<and> length (fs ! 5) < 3 \<longrightarrow>
            newE2ETest outputDir jobName job config = Inl SliceBoundsOutOfRange
            \<and> forEachJob outputDir jobName job config = Inl SliceBoundsOutOfRange)
         \<and> (length fs = 6 \<and> fs ! 2 = ''e2enode'' \<and> length (fs ! 4) < 3 \<longrightarrow>
            newE2ENodeTest jobName job config = Inl SliceBoundsOutOfRange
            \<and> forEachJob outputDir jobName job config = Inl SliceBoundsOutOfRange)
         \<and> \<not> jobNameError SliceBoundsOutOfRange"
  unfolding assms
  by (simp add: forEachJob_e2e forEachJob_e2enode newE2ETest_Inl newE2ENodeTest_Inl
      newE2ETest_def newE2ENodeTest_def Let_def)

theorem short_version_field_panics_witness:
  "forEachJob ''out'' ''ci-kubernetes-e2e-gce-cos-k8-default'' exampleJob (exampleConfig [] [])
     = Inl SliceBoundsOutOfRange
   \<and> forEachJob ''out'' ''ci-kubernetes-e2enode-cos-k8-default'' exampleJob (exampleConfig [] [])
     = Inl SliceBoundsOutOfRange"
  using short_version_field_panics [OF refl, of "''ci-kubernetes-e2e-gce-cos-k8-default''" "''out''" exampleJob "exampleConfig [] []"]
    short_version_field_panics [OF refl, of "''ci-kubernetes-e2enode-cos-k8-default''" "''out''" exampleJob "exampleConfig [] []"]
  by simp

end
